theory Spec2Isabelle
  imports Main
begin

section \<open>nova/network/service.py: network hosts allocating ips and setting up networks\<close>

text \<open>
  The service is a thin layer of control logic over two collaborators that it only calls:
  the module \<open>db\<close> (the address ledger) and the module \<open>linux_net\<close>, bound to \<open>_driver\<close>
  (the topology driver). Neither is part of \<open>service.py\<close>. Both are therefore parameters
  of the embedding: a record of operations over an arbitrary ledger state \<open>'l\<close> and a
  record of operations over an arbitrary driver state \<open>'d\<close>. Every operation may raise,
  and what it leaves behind when it raises is up to the collaborator.

  A Python exception leaves the mutations made so far in place, so a service operation
  returns a pair: the outcome (\<open>Inl\<close> an error, \<open>Inr\<close> the returned value) and the world
  after the call. The world also carries the list of collaborator calls issued so far,
  in order, appended to at the moment a call is made.

  The \<open>context\<close> argument, which the service only forwards to \<open>db\<close>, and the calls to
  \<open>logging\<close> are left out.
\<close>

subsection \<open>Data\<close>

type_synonym address = string
type_synonym project_id = string
type_synonym instance_id = string
type_synonym host = string
type_synonym network_id = nat

datatype error =
    NotFound string
  | AddressSpaceExhausted
  | AddressAlreadyAllocated
  | AddressNotAllocated
  | CollaboratorFailure string

text \<open>The network record of the ledger; \<open>net_id\<close> is the key \<open>'id'\<close>.\<close>

record network =
  net_id :: network_id
  project :: project_id
  kind :: "string option"
  node_name_of :: "host option"
  injected :: bool
  vlan :: int
  bridge :: string
  network_str :: string
  netmask :: string
  gateway :: string
  broadcast :: string
  dns :: string
  vpn_public_ip_str :: string
  vpn_public_port :: int
  vpn_private_ip_str :: string

record fixed_ip =
  fip_address :: address
  fip_network :: network_id
  fip_instance :: "instance_id option"
  leased :: bool
  allocated :: bool

record floating_ip =
  flo_address :: address
  flo_host :: host
  flo_project :: "project_id option"
  flo_fixed :: "address option"

text \<open>The values of the dictionary \<open>net\<close> that the flat hook hands to \<open>db.network_update\<close>.\<close>

datatype fval = B bool | S string

type_synonym net_fields = "(string \<times> fval) list"

text \<open>The flags read by the modelled operations (\<open>FLAGS.node_name\<close> is defined outside
  \<open>service.py\<close>).\<close>

record flags =
  network_type :: string
  flat_network_bridge :: string
  flat_network_network :: string
  flat_network_netmask :: string
  flat_network_gateway :: string
  flat_network_broadcast :: string
  flat_network_dns :: string
  node_name :: host

definition default_flags :: "host \<Rightarrow> flags" where
  "default_flags h =
     \<lparr>network_type = ''flat'',
      flat_network_bridge = ''br100'',
      flat_network_network = ''192.168.0.0'',
      flat_network_netmask = ''255.255.255.0'',
      flat_network_gateway = ''192.168.0.1'',
      flat_network_broadcast = ''192.168.0.255'',
      flat_network_dns = ''8.8.4.4'',
      node_name = h\<rparr>"

subsection \<open>The collaborators\<close>

record 'l db_api =
  project_get_network :: "project_id \<Rightarrow> 'l \<Rightarrow> (error + network) \<times> 'l"
  network_set_host :: "network_id \<Rightarrow> host \<Rightarrow> 'l \<Rightarrow> (error + host) \<times> 'l"
  network_update :: "network_id \<Rightarrow> net_fields \<Rightarrow> 'l \<Rightarrow> (error + unit) \<times> 'l"
  network_get :: "network_id \<Rightarrow> 'l \<Rightarrow> (error + network) \<times> 'l"
  network_get_vpn_ip_address :: "network_id \<Rightarrow> 'l \<Rightarrow> (error + address) \<times> 'l"
  instance_is_vpn :: "instance_id \<Rightarrow> 'l \<Rightarrow> (error + bool) \<times> 'l"
  fixed_ip_allocate_address :: "network_id \<Rightarrow> 'l \<Rightarrow> (error + address) \<times> 'l"
  fixed_ip_instance_associate :: "address \<Rightarrow> instance_id \<Rightarrow> 'l \<Rightarrow> (error + unit) \<times> 'l"
  fixed_ip_instance_disassociate :: "address \<Rightarrow> 'l \<Rightarrow> (error + unit) \<times> 'l"
  fixed_ip_deallocate :: "address \<Rightarrow> 'l \<Rightarrow> (error + unit) \<times> 'l"
  fixed_ip_get_by_address :: "address \<Rightarrow> 'l \<Rightarrow> (error + fixed_ip) \<times> 'l"
  fixed_ip_lease :: "address \<Rightarrow> 'l \<Rightarrow> (error + unit) \<times> 'l"
  fixed_ip_release :: "address \<Rightarrow> 'l \<Rightarrow> (error + unit) \<times> 'l"
  floating_ip_allocate_address :: "host \<Rightarrow> project_id \<Rightarrow> 'l \<Rightarrow> (error + address) \<times> 'l"
  floating_ip_fixed_ip_associate :: "address \<Rightarrow> address \<Rightarrow> 'l \<Rightarrow> (error + unit) \<times> 'l"
  floating_ip_disassociate :: "address \<Rightarrow> 'l \<Rightarrow> (error + address) \<times> 'l"
  floating_ip_deallocate :: "address \<Rightarrow> 'l \<Rightarrow> (error + unit) \<times> 'l"

record 'd driver_api =
  ensure_vlan_bridge :: "int \<Rightarrow> string \<Rightarrow> 'd \<Rightarrow> (error + unit) \<times> 'd"
  ensure_vlan_forward :: "string \<Rightarrow> int \<Rightarrow> string \<Rightarrow> 'd \<Rightarrow> (error + unit) \<times> 'd"
  bind_floating_ip :: "address \<Rightarrow> 'd \<Rightarrow> (error + unit) \<times> 'd"
  unbind_floating_ip :: "address \<Rightarrow> 'd \<Rightarrow> (error + unit) \<times> 'd"
  ensure_floating_forward :: "address \<Rightarrow> address \<Rightarrow> 'd \<Rightarrow> (error + unit) \<times> 'd"
  remove_floating_forward :: "address \<Rightarrow> address \<Rightarrow> 'd \<Rightarrow> (error + unit) \<times> 'd"

text \<open>One constructor for each collaborator call the service can issue, with its arguments.\<close>

datatype call =
    Db_project_get_network project_id
  | Db_network_set_host network_id host
  | Db_network_update network_id net_fields
  | Db_network_get network_id
  | Db_network_get_vpn_ip_address network_id
  | Db_instance_is_vpn instance_id
  | Db_fixed_ip_allocate_address network_id
  | Db_fixed_ip_instance_associate address instance_id
  | Db_fixed_ip_instance_disassociate address
  | Db_fixed_ip_deallocate address
  | Db_fixed_ip_get_by_address address
  | Db_fixed_ip_lease address
  | Db_fixed_ip_release address
  | Db_floating_ip_allocate_address host project_id
  | Db_floating_ip_fixed_ip_associate address address
  | Db_floating_ip_disassociate address
  | Db_floating_ip_deallocate address
  | Drv_ensure_vlan_bridge int string
  | Drv_ensure_vlan_forward string int string
  | Drv_bind_floating_ip address
  | Drv_unbind_floating_ip address
  | Drv_ensure_floating_forward address address
  | Drv_remove_floating_forward address address

fun is_driver_call :: "call \<Rightarrow> bool" where
  "is_driver_call (Drv_ensure_vlan_bridge v b) = True"
| "is_driver_call (Drv_ensure_vlan_forward a p b) = True"
| "is_driver_call (Drv_bind_floating_ip a) = True"
| "is_driver_call (Drv_unbind_floating_ip a) = True"
| "is_driver_call (Drv_ensure_floating_forward a b) = True"
| "is_driver_call (Drv_remove_floating_forward a b) = True"
| "is_driver_call c = False"

record ('l, 'd) world =
  ledger_state :: 'l
  driver_state :: 'd
  calls :: "call list"

record ('l, 'd) env =
  FLAGS :: flags
  db :: "'l db_api"
  driver :: "'d driver_api"

type_synonym ('a, 'l, 'd) action = "('l, 'd) world \<Rightarrow> (error + 'a) \<times> ('l, 'd) world"

subsection \<open>Sequencing with exceptions\<close>

definition returns :: "'a \<Rightarrow> ('a, 'l, 'd) action" where
  "returns x w = (Inr x, w)"

definition raise :: "error \<Rightarrow> ('a, 'l, 'd) action" where
  "raise e w = (Inl e, w)"

text \<open>\<open>m \<bind> f\<close>: run \<open>m\<close>; if it raised, stop there with the world it left; otherwise go
  on with \<open>f\<close> on the value it returned.\<close>

definition and_then :: "('a, 'l, 'd) action \<Rightarrow> ('a \<Rightarrow> ('b, 'l, 'd) action) \<Rightarrow> ('b, 'l, 'd) action" where
  "and_then m f w = (case m w of (Inl e, w') \<Rightarrow> (Inl e, w') | (Inr x, w') \<Rightarrow> f x w')"

definition db_call :: "call \<Rightarrow> ('l \<Rightarrow> (error + 'a) \<times> 'l) \<Rightarrow> ('a, 'l, 'd) action" where
  "db_call c f w =
     (case f (ledger_state w) of
        (r, l') \<Rightarrow> (r, w\<lparr>ledger_state := l', calls := calls w @ [c]\<rparr>))"

definition driver_call :: "call \<Rightarrow> ('d \<Rightarrow> (error + 'a) \<times> 'd) \<Rightarrow> ('a, 'l, 'd) action" where
  "driver_call c f w =
     (case f (driver_state w) of
        (r, d') \<Rightarrow> (r, w\<lparr>driver_state := d', calls := calls w @ [c]\<rparr>))"

subsection \<open>The calls of \<open>service.py\<close> into \<open>db\<close> and \<open>_driver\<close>\<close>

definition db_project_get_network :: "('l, 'd) env \<Rightarrow> project_id \<Rightarrow> (network, 'l, 'd) action" where
  "db_project_get_network E p = db_call (Db_project_get_network p) (project_get_network (db E) p)"

definition db_network_set_host :: "('l, 'd) env \<Rightarrow> network_id \<Rightarrow> host \<Rightarrow> (host, 'l, 'd) action" where
  "db_network_set_host E n h = db_call (Db_network_set_host n h) (network_set_host (db E) n h)"

definition db_network_update :: "('l, 'd) env \<Rightarrow> network_id \<Rightarrow> net_fields \<Rightarrow> (unit, 'l, 'd) action" where
  "db_network_update E n fs = db_call (Db_network_update n fs) (network_update (db E) n fs)"

definition db_network_get :: "('l, 'd) env \<Rightarrow> network_id \<Rightarrow> (network, 'l, 'd) action" where
  "db_network_get E n = db_call (Db_network_get n) (network_get (db E) n)"

definition db_network_get_vpn_ip_address :: "('l, 'd) env \<Rightarrow> network_id \<Rightarrow> (address, 'l, 'd) action" where
  "db_network_get_vpn_ip_address E n =
     db_call (Db_network_get_vpn_ip_address n) (network_get_vpn_ip_address (db E) n)"

definition db_instance_is_vpn :: "('l, 'd) env \<Rightarrow> instance_id \<Rightarrow> (bool, 'l, 'd) action" where
  "db_instance_is_vpn E i = db_call (Db_instance_is_vpn i) (instance_is_vpn (db E) i)"

definition db_fixed_ip_allocate_address :: "('l, 'd) env \<Rightarrow> network_id \<Rightarrow> (address, 'l, 'd) action" where
  "db_fixed_ip_allocate_address E n =
     db_call (Db_fixed_ip_allocate_address n) (fixed_ip_allocate_address (db E) n)"

definition db_fixed_ip_instance_associate ::
    "('l, 'd) env \<Rightarrow> address \<Rightarrow> instance_id \<Rightarrow> (unit, 'l, 'd) action" where
  "db_fixed_ip_instance_associate E a i =
     db_call (Db_fixed_ip_instance_associate a i) (fixed_ip_instance_associate (db E) a i)"

definition db_fixed_ip_instance_disassociate :: "('l, 'd) env \<Rightarrow> address \<Rightarrow> (unit, 'l, 'd) action" where
  "db_fixed_ip_instance_disassociate E a =
     db_call (Db_fixed_ip_instance_disassociate a) (fixed_ip_instance_disassociate (db E) a)"

definition db_fixed_ip_deallocate :: "('l, 'd) env \<Rightarrow> address \<Rightarrow> (unit, 'l, 'd) action" where
  "db_fixed_ip_deallocate E a = db_call (Db_fixed_ip_deallocate a) (fixed_ip_deallocate (db E) a)"

definition db_fixed_ip_get_by_address :: "('l, 'd) env \<Rightarrow> address \<Rightarrow> (fixed_ip, 'l, 'd) action" where
  "db_fixed_ip_get_by_address E a =
     db_call (Db_fixed_ip_get_by_address a) (fixed_ip_get_by_address (db E) a)"

definition db_fixed_ip_lease :: "('l, 'd) env \<Rightarrow> address \<Rightarrow> (unit, 'l, 'd) action" where
  "db_fixed_ip_lease E a = db_call (Db_fixed_ip_lease a) (fixed_ip_lease (db E) a)"

definition db_fixed_ip_release :: "('l, 'd) env \<Rightarrow> address \<Rightarrow> (unit, 'l, 'd) action" where
  "db_fixed_ip_release E a = db_call (Db_fixed_ip_release a) (fixed_ip_release (db E) a)"

definition db_floating_ip_allocate_address ::
    "('l, 'd) env \<Rightarrow> host \<Rightarrow> project_id \<Rightarrow> (address, 'l, 'd) action" where
  "db_floating_ip_allocate_address E h p =
     db_call (Db_floating_ip_allocate_address h p) (floating_ip_allocate_address (db E) h p)"

definition db_floating_ip_fixed_ip_associate ::
    "('l, 'd) env \<Rightarrow> address \<Rightarrow> address \<Rightarrow> (unit, 'l, 'd) action" where
  "db_floating_ip_fixed_ip_associate E fl fx =
     db_call (Db_floating_ip_fixed_ip_associate fl fx) (floating_ip_fixed_ip_associate (db E) fl fx)"

definition db_floating_ip_disassociate :: "('l, 'd) env \<Rightarrow> address \<Rightarrow> (address, 'l, 'd) action" where
  "db_floating_ip_disassociate E fl =
     db_call (Db_floating_ip_disassociate fl) (floating_ip_disassociate (db E) fl)"

definition db_floating_ip_deallocate :: "('l, 'd) env \<Rightarrow> address \<Rightarrow> (unit, 'l, 'd) action" where
  "db_floating_ip_deallocate E fl =
     db_call (Db_floating_ip_deallocate fl) (floating_ip_deallocate (db E) fl)"

definition driver_ensure_vlan_bridge :: "('l, 'd) env \<Rightarrow> int \<Rightarrow> string \<Rightarrow> (unit, 'l, 'd) action" where
  "driver_ensure_vlan_bridge E v b =
     driver_call (Drv_ensure_vlan_bridge v b) (ensure_vlan_bridge (driver E) v b)"

definition driver_ensure_vlan_forward ::
    "('l, 'd) env \<Rightarrow> string \<Rightarrow> int \<Rightarrow> string \<Rightarrow> (unit, 'l, 'd) action" where
  "driver_ensure_vlan_forward E pub port priv =
     driver_call (Drv_ensure_vlan_forward pub port priv) (ensure_vlan_forward (driver E) pub port priv)"

definition driver_bind_floating_ip :: "('l, 'd) env \<Rightarrow> address \<Rightarrow> (unit, 'l, 'd) action" where
  "driver_bind_floating_ip E fl = driver_call (Drv_bind_floating_ip fl) (bind_floating_ip (driver E) fl)"

definition driver_unbind_floating_ip :: "('l, 'd) env \<Rightarrow> address \<Rightarrow> (unit, 'l, 'd) action" where
  "driver_unbind_floating_ip E fl =
     driver_call (Drv_unbind_floating_ip fl) (unbind_floating_ip (driver E) fl)"

definition driver_ensure_floating_forward ::
    "('l, 'd) env \<Rightarrow> address \<Rightarrow> address \<Rightarrow> (unit, 'l, 'd) action" where
  "driver_ensure_floating_forward E fl fx =
     driver_call (Drv_ensure_floating_forward fl fx) (ensure_floating_forward (driver E) fl fx)"

definition driver_remove_floating_forward ::
    "('l, 'd) env \<Rightarrow> address \<Rightarrow> address \<Rightarrow> (unit, 'l, 'd) action" where
  "driver_remove_floating_forward E fl fx =
     driver_call (Drv_remove_floating_forward fl fx) (remove_floating_forward (driver E) fl fx)"

subsection \<open>\<open>type_to_class\<close>\<close>

datatype service_class = BaseNetworkService | FlatNetworkService | VlanNetworkService

text \<open>\<open>not network_type\<close> holds of \<open>None\<close> and of the empty string.\<close>

definition falsy :: "string option \<Rightarrow> bool" where
  "falsy s = (case s of None \<Rightarrow> True | Some t \<Rightarrow> t = [])"

definition type_to_class :: "flags \<Rightarrow> string option \<Rightarrow> error + service_class" where
  "type_to_class F ntype =
     (let ntype = (if falsy ntype then Some (network_type F) else ntype) in
      if ntype = Some ''flat'' then Inr FlatNetworkService
      else if ntype = Some ''vlan'' then Inr VlanNetworkService
      else Inl (NotFound (''Couldn't find '' @ the ntype @ '' network type'')))"

subsection \<open>\<open>BaseNetworkService\<close>, \<open>FlatNetworkService\<close>, \<open>VlanNetworkService\<close>\<close>

text \<open>What a method hands back to its caller: the string of a \<open>return\<close> statement, or
  Python's \<open>None\<close> where the body ends without one.\<close>

datatype pyval = PyNone | PyStr string

text \<open>\<open>BaseNetworkService._on_set_network_host\<close>: \<open>pass\<close>.\<close>

definition base_on_set_network_host :: "('l, 'd) env \<Rightarrow> network_id \<Rightarrow> (pyval, 'l, 'd) action" where
  "base_on_set_network_host E network_id = returns PyNone"

text \<open>\<open>FlatNetworkService._on_set_network_host\<close>.\<close>

definition flat_net :: "flags \<Rightarrow> net_fields" where
  "flat_net F =
     [(''injected'', B True),
      (''kind'', S (network_type F)),
      (''network_str'', S (flat_network_network F)),
      (''netmask'', S (flat_network_netmask F)),
      (''bridge'', S (flat_network_bridge F)),
      (''gateway'', S (flat_network_gateway F)),
      (''broadcast'', S (flat_network_broadcast F)),
      (''dns'', S (flat_network_dns F))]"

definition flat_on_set_network_host :: "('l, 'd) env \<Rightarrow> network_id \<Rightarrow> (pyval, 'l, 'd) action" where
  "flat_on_set_network_host E network_id =
     (let net = flat_net (FLAGS E) in
      and_then (db_network_update E network_id net) (\<lambda>_. returns PyNone))"

text \<open>\<open>VlanNetworkService._on_set_network_host\<close>.\<close>

definition vlan_on_set_network_host :: "('l, 'd) env \<Rightarrow> network_id \<Rightarrow> (pyval, 'l, 'd) action" where
  "vlan_on_set_network_host E network_id =
     and_then (db_network_get E network_id) (\<lambda>network_ref.
     and_then (driver_ensure_vlan_bridge E (vlan network_ref) (bridge network_ref)) (\<lambda>_.
     returns PyNone))"

text \<open>\<open>self._on_set_network_host\<close>: the method of the class of \<open>self\<close>.\<close>

fun on_set_network_host ::
    "service_class \<Rightarrow> ('l, 'd) env \<Rightarrow> network_id \<Rightarrow> (pyval, 'l, 'd) action" where
  "on_set_network_host BaseNetworkService = base_on_set_network_host"
| "on_set_network_host FlatNetworkService = flat_on_set_network_host"
| "on_set_network_host VlanNetworkService = vlan_on_set_network_host"

text \<open>\<open>BaseNetworkService.set_network_host\<close>, inherited by both subclasses.\<close>

definition set_network_host ::
    "service_class \<Rightarrow> ('l, 'd) env \<Rightarrow> project_id \<Rightarrow> (pyval, 'l, 'd) action" where
  "set_network_host self E project_id =
     and_then (db_project_get_network E project_id) (\<lambda>network_ref.
     let network_id = net_id network_ref in
     and_then (db_network_set_host E network_id (node_name (FLAGS E))) (\<lambda>host.
     and_then (on_set_network_host self E network_id) (\<lambda>_.
     returns (PyStr host))))"

text \<open>\<open>BaseNetworkService.allocate_fixed_ip\<close>.\<close>

definition allocate_fixed_ip ::
    "('l, 'd) env \<Rightarrow> project_id \<Rightarrow> instance_id \<Rightarrow> (pyval, 'l, 'd) action" where
  "allocate_fixed_ip E project_id instance_id =
     and_then (db_project_get_network E project_id) (\<lambda>network_ref.
     and_then (db_fixed_ip_allocate_address E (net_id network_ref)) (\<lambda>address.
     and_then (db_fixed_ip_instance_associate E address instance_id) (\<lambda>_.
     returns (PyStr address))))"

text \<open>\<open>BaseNetworkService.deallocate_fixed_ip\<close>.\<close>

definition base_deallocate_fixed_ip :: "('l, 'd) env \<Rightarrow> address \<Rightarrow> (pyval, 'l, 'd) action" where
  "base_deallocate_fixed_ip E address =
     and_then (db_fixed_ip_deallocate E address) (\<lambda>_.
     and_then (db_fixed_ip_instance_disassociate E address) (\<lambda>_.
     returns PyNone))"

text \<open>\<open>BaseNetworkService.allocate_floating_ip\<close>.\<close>

definition allocate_floating_ip :: "('l, 'd) env \<Rightarrow> project_id \<Rightarrow> (pyval, 'l, 'd) action" where
  "allocate_floating_ip E project_id =
     and_then (db_floating_ip_allocate_address E (node_name (FLAGS E)) project_id) (\<lambda>address.
     returns (PyStr address))"

text \<open>\<open>BaseNetworkService.associate_floating_ip\<close>.\<close>

definition associate_floating_ip ::
    "('l, 'd) env \<Rightarrow> address \<Rightarrow> address \<Rightarrow> (pyval, 'l, 'd) action" where
  "associate_floating_ip E floating_address fixed_address =
     and_then (db_floating_ip_fixed_ip_associate E floating_address fixed_address) (\<lambda>_.
     and_then (driver_bind_floating_ip E floating_address) (\<lambda>_.
     and_then (driver_ensure_floating_forward E floating_address fixed_address) (\<lambda>_.
     returns PyNone)))"

text \<open>\<open>BaseNetworkService.disassociate_floating_ip\<close>.\<close>

definition disassociate_floating_ip :: "('l, 'd) env \<Rightarrow> address \<Rightarrow> (pyval, 'l, 'd) action" where
  "disassociate_floating_ip E floating_address =
     and_then (db_floating_ip_disassociate E floating_address) (\<lambda>fixed_address.
     and_then (driver_unbind_floating_ip E floating_address) (\<lambda>_.
     and_then (driver_remove_floating_forward E floating_address fixed_address) (\<lambda>_.
     returns PyNone)))"

text \<open>\<open>BaseNetworkService.deallocate_floating_ip\<close>.\<close>

definition deallocate_floating_ip :: "('l, 'd) env \<Rightarrow> address \<Rightarrow> (pyval, 'l, 'd) action" where
  "deallocate_floating_ip E floating_address =
     and_then (db_floating_ip_deallocate E floating_address) (\<lambda>_. returns PyNone)"

text \<open>\<open>VlanNetworkService.setup_fixed_ip\<close>.\<close>

definition setup_fixed_ip ::
    "('l, 'd) env \<Rightarrow> project_id \<Rightarrow> instance_id \<Rightarrow> (pyval, 'l, 'd) action" where
  "setup_fixed_ip E project_id instance_id =
     and_then (db_project_get_network E project_id) (\<lambda>network_ref.
     and_then (db_instance_is_vpn E instance_id) (\<lambda>is_vpn.
     if is_vpn then
       and_then (db_network_get_vpn_ip_address E (net_id network_ref)) (\<lambda>address.
       and_then (db_fixed_ip_instance_associate E address instance_id) (\<lambda>_.
       and_then (driver_ensure_vlan_forward E (vpn_public_ip_str network_ref)
                   (vpn_public_port network_ref) (vpn_private_ip_str network_ref)) (\<lambda>_.
       returns (PyStr address))))
     else
       allocate_fixed_ip E project_id instance_id))"

text \<open>\<open>VlanNetworkService.lease_fixed_ip\<close> and \<open>VlanNetworkService.release_fixed_ip\<close>.\<close>

definition lease_fixed_ip :: "('l, 'd) env \<Rightarrow> address \<Rightarrow> (pyval, 'l, 'd) action" where
  "lease_fixed_ip E address =
     and_then (db_fixed_ip_lease E address) (\<lambda>_. returns PyNone)"

definition release_fixed_ip :: "('l, 'd) env \<Rightarrow> address \<Rightarrow> (pyval, 'l, 'd) action" where
  "release_fixed_ip E address =
     and_then (db_fixed_ip_release E address) (\<lambda>_.
     and_then (db_fixed_ip_instance_disassociate E address) (\<lambda>_.
     returns PyNone))"

text \<open>\<open>VlanNetworkService.deallocate_fixed_ip\<close>.\<close>

definition vlan_deallocate_fixed_ip :: "('l, 'd) env \<Rightarrow> address \<Rightarrow> (pyval, 'l, 'd) action" where
  "vlan_deallocate_fixed_ip E address =
     and_then (db_fixed_ip_get_by_address E address) (\<lambda>fixed_ip_ref.
     if leased fixed_ip_ref then
       and_then (db_fixed_ip_deallocate E address) (\<lambda>_. returns PyNone)
     else
       release_fixed_ip E address)"

subsection \<open>A ledger and a driver to run the service against\<close>

text \<open>
  The module \<open>db\<close> is not part of \<open>service.py\<close>. The ledger below follows the
  specification's data model and its list of ledger operations; it is the ledger the
  claims about pool contents and ledger errors are settled on, and the one the concrete
  runs use.
\<close>

record ledger =
  networks :: "network list"
  fixed_ips :: "fixed_ip list"
  floating_ips :: "floating_ip list"
  vpn_instances :: "instance_id list"

text \<open>The record the ledger holds under a key, if any.\<close>

definition network_of :: "ledger \<Rightarrow> network_id \<Rightarrow> network option" where
  "network_of L nid = find (\<lambda>n. net_id n = nid) (networks L)"

definition fixed_ip_of :: "ledger \<Rightarrow> address \<Rightarrow> fixed_ip option" where
  "fixed_ip_of L a = find (\<lambda>f. fip_address f = a) (fixed_ips L)"

definition floating_ip_of :: "ledger \<Rightarrow> address \<Rightarrow> floating_ip option" where
  "floating_ip_of L fl = find (\<lambda>f. flo_address f = fl) (floating_ips L)"

definition upd_network :: "network_id \<Rightarrow> (network \<Rightarrow> network) \<Rightarrow> ledger \<Rightarrow> ledger" where
  "upd_network nid g L = L\<lparr>networks := map (\<lambda>n. if net_id n = nid then g n else n) (networks L)\<rparr>"

definition upd_fixed_ip :: "address \<Rightarrow> (fixed_ip \<Rightarrow> fixed_ip) \<Rightarrow> ledger \<Rightarrow> ledger" where
  "upd_fixed_ip a g L =
     L\<lparr>fixed_ips := map (\<lambda>f. if fip_address f = a then g f else f) (fixed_ips L)\<rparr>"

definition upd_floating_ip :: "address \<Rightarrow> (floating_ip \<Rightarrow> floating_ip) \<Rightarrow> ledger \<Rightarrow> ledger" where
  "upd_floating_ip a g L =
     L\<lparr>floating_ips := map (\<lambda>f. if flo_address f = a then g f else f) (floating_ips L)\<rparr>"

text \<open>Modelled from the spec: \<open>db.project_get_network\<close> (\<open>GetNetworkByTenant\<close>), the network
  record of the tenant.\<close>

definition ledger_project_get_network :: "project_id \<Rightarrow> ledger \<Rightarrow> (error + network) \<times> ledger" where
  "ledger_project_get_network p L =
     (case find (\<lambda>n. project n = p) (networks L) of
        None \<Rightarrow> (Inl (NotFound p), L)
      | Some n \<Rightarrow> (Inr n, L))"

text \<open>Modelled from the spec: \<open>db.network_get\<close> (\<open>GetNetworkByID\<close>).\<close>

definition ledger_network_get :: "network_id \<Rightarrow> ledger \<Rightarrow> (error + network) \<times> ledger" where
  "ledger_network_get nid L =
     (case network_of L nid of
        None \<Rightarrow> (Inl (NotFound ''network''), L)
      | Some n \<Rightarrow> (Inr n, L))"

text \<open>Modelled from the spec: \<open>db.network_set_host\<close> (\<open>SetNetworkHost\<close>: atomic, returns
  previous/assigned host; at most one host is assigned at a time). A network without a
  host gets the given one; a network with a host keeps it; the host of record is returned.\<close>

definition ledger_network_set_host :: "network_id \<Rightarrow> host \<Rightarrow> ledger \<Rightarrow> (error + host) \<times> ledger" where
  "ledger_network_set_host nid h L =
     (case network_of L nid of
        None \<Rightarrow> (Inl (NotFound ''network''), L)
      | Some n \<Rightarrow>
         (case node_name_of n of
            Some h0 \<Rightarrow> (Inr h0, L)
          | None \<Rightarrow> (Inr h, upd_network nid (\<lambda>n. n\<lparr>node_name_of := Some h\<rparr>) L)))"

text \<open>Modelled from the spec: \<open>db.network_update\<close> (\<open>UpdateNetwork(fields)\<close>) writes the given
  fields into the network record.\<close>

fun set_field :: "string \<times> fval \<Rightarrow> network \<Rightarrow> network" where
  "set_field (k, B b) n = (if k = ''injected'' then n\<lparr>injected := b\<rparr> else n)"
| "set_field (k, S s) n =
     (if k = ''kind'' then n\<lparr>kind := Some s\<rparr>
      else if k = ''network_str'' then n\<lparr>network_str := s\<rparr>
      else if k = ''netmask'' then n\<lparr>netmask := s\<rparr>
      else if k = ''bridge'' then n\<lparr>bridge := s\<rparr>
      else if k = ''gateway'' then n\<lparr>gateway := s\<rparr>
      else if k = ''broadcast'' then n\<lparr>broadcast := s\<rparr>
      else if k = ''dns'' then n\<lparr>dns := s\<rparr>
      else n)"

definition ledger_network_update :: "network_id \<Rightarrow> net_fields \<Rightarrow> ledger \<Rightarrow> (error + unit) \<times> ledger" where
  "ledger_network_update nid fs L =
     (case network_of L nid of
        None \<Rightarrow> (Inl (NotFound ''network''), L)
      | Some _ \<Rightarrow> (Inr (), upd_network nid (fold set_field fs) L))"

text \<open>Modelled from the spec: \<open>db.network_get_vpn_ip_address\<close> (\<open>GetVPNAddressForNetwork\<close>), the
  network's reserved VPN private address.\<close>

definition ledger_network_get_vpn_ip_address :: "network_id \<Rightarrow> ledger \<Rightarrow> (error + address) \<times> ledger" where
  "ledger_network_get_vpn_ip_address nid L =
     (case network_of L nid of
        None \<Rightarrow> (Inl (NotFound ''network''), L)
      | Some n \<Rightarrow> (Inr (vpn_private_ip_str n), L))"

text \<open>Modelled from the spec: \<open>db.instance_is_vpn\<close> (\<open>IsInstanceVPNEndpoint\<close>).\<close>

definition ledger_instance_is_vpn :: "instance_id \<Rightarrow> ledger \<Rightarrow> (error + bool) \<times> ledger" where
  "ledger_instance_is_vpn i L = (Inr (i \<in> set (vpn_instances L)), L)"

text \<open>Modelled from the spec: \<open>db.fixed_ip_allocate_address\<close>
  (\<open>AllocateFixedIPAddress(networkID) -> address | ExhaustedError\<close>): the next address of the
  network's pool that is not currently allocated, marked allocated; \<open>AddressSpaceExhausted\<close>
  when no address remains in the pool.\<close>

definition in_pool :: "network_id \<Rightarrow> fixed_ip \<Rightarrow> bool" where
  "in_pool nid f = (fip_network f = nid \<and> \<not> allocated f)"

definition ledger_fixed_ip_allocate_address :: "network_id \<Rightarrow> ledger \<Rightarrow> (error + address) \<times> ledger" where
  "ledger_fixed_ip_allocate_address nid L =
     (case find (in_pool nid) (fixed_ips L) of
        None \<Rightarrow> (Inl AddressSpaceExhausted, L)
      | Some f \<Rightarrow> (Inr (fip_address f), upd_fixed_ip (fip_address f) (\<lambda>f. f\<lparr>allocated := True\<rparr>) L))"

text \<open>Modelled from the spec: \<open>db.fixed_ip_get_by_address\<close> (\<open>GetFixedIPByAddress\<close>).\<close>

definition ledger_fixed_ip_get_by_address :: "address \<Rightarrow> ledger \<Rightarrow> (error + fixed_ip) \<times> ledger" where
  "ledger_fixed_ip_get_by_address a L =
     (case fixed_ip_of L a of
        None \<Rightarrow> (Inl (NotFound a), L)
      | Some f \<Rightarrow> (Inr f, L))"

text \<open>The writes to one fixed address: each fails on an address the ledger does not hold.\<close>

definition write_fixed_ip :: "address \<Rightarrow> (fixed_ip \<Rightarrow> fixed_ip) \<Rightarrow> ledger \<Rightarrow> (error + unit) \<times> ledger" where
  "write_fixed_ip a g L =
     (case fixed_ip_of L a of
        None \<Rightarrow> (Inl (NotFound a), L)
      | Some _ \<Rightarrow> (Inr (), upd_fixed_ip a g L))"

text \<open>Modelled from the spec: \<open>db.fixed_ip_instance_associate\<close> (\<open>AssociateFixedIPInstance\<close>)
  records the instance of the address.\<close>

definition ledger_fixed_ip_instance_associate ::
    "address \<Rightarrow> instance_id \<Rightarrow> ledger \<Rightarrow> (error + unit) \<times> ledger" where
  "ledger_fixed_ip_instance_associate a i = write_fixed_ip a (\<lambda>f. f\<lparr>fip_instance := Some i\<rparr>)"

text \<open>Modelled from the spec: \<open>db.fixed_ip_instance_disassociate\<close>
  (\<open>DisassociateFixedIPInstance\<close>) clears the instance of the address.\<close>

definition ledger_fixed_ip_instance_disassociate :: "address \<Rightarrow> ledger \<Rightarrow> (error + unit) \<times> ledger" where
  "ledger_fixed_ip_instance_disassociate a = write_fixed_ip a (\<lambda>f. f\<lparr>fip_instance := None\<rparr>)"

text \<open>Modelled from the spec: \<open>db.fixed_ip_deallocate\<close> (\<open>DeallocateFixedIPAddress\<close>) releases
  the address back to the pool.\<close>

definition ledger_fixed_ip_deallocate :: "address \<Rightarrow> ledger \<Rightarrow> (error + unit) \<times> ledger" where
  "ledger_fixed_ip_deallocate a = write_fixed_ip a (\<lambda>f. f\<lparr>allocated := False\<rparr>)"

text \<open>Modelled from the spec: \<open>db.fixed_ip_lease\<close> and \<open>db.fixed_ip_release\<close>
  (\<open>SetFixedIPLeased\<close>/\<open>ClearLeased\<close>) set and clear the \<open>leased\<close> flag.\<close>

definition ledger_fixed_ip_lease :: "address \<Rightarrow> ledger \<Rightarrow> (error + unit) \<times> ledger" where
  "ledger_fixed_ip_lease a = write_fixed_ip a (\<lambda>f. f\<lparr>leased := True\<rparr>)"

definition ledger_fixed_ip_release :: "address \<Rightarrow> ledger \<Rightarrow> (error + unit) \<times> ledger" where
  "ledger_fixed_ip_release a = write_fixed_ip a (\<lambda>f. f\<lparr>leased := False\<rparr>)"

text \<open>Modelled from the spec: \<open>db.floating_ip_allocate_address\<close>
  (\<open>AllocateFloatingIPAddress(host, tenant) -> address | ExhaustedError\<close>) reserves an unused
  public address of the host's pool for the tenant.\<close>

definition ledger_floating_ip_allocate_address ::
    "host \<Rightarrow> project_id \<Rightarrow> ledger \<Rightarrow> (error + address) \<times> ledger" where
  "ledger_floating_ip_allocate_address h p L =
     (case find (\<lambda>f. flo_host f = h \<and> flo_project f = None) (floating_ips L) of
        None \<Rightarrow> (Inl AddressSpaceExhausted, L)
      | Some f \<Rightarrow> (Inr (flo_address f), upd_floating_ip (flo_address f) (\<lambda>f. f\<lparr>flo_project := Some p\<rparr>) L))"

text \<open>Modelled from the spec: \<open>db.floating_ip_fixed_ip_associate\<close> (\<open>AssociateFloatingFixed\<close>)
  records the fixed address of the floating address.\<close>

definition ledger_floating_ip_fixed_ip_associate ::
    "address \<Rightarrow> address \<Rightarrow> ledger \<Rightarrow> (error + unit) \<times> ledger" where
  "ledger_floating_ip_fixed_ip_associate fl fx L =
     (case floating_ip_of L fl of
        None \<Rightarrow> (Inl (NotFound fl), L)
      | Some _ \<Rightarrow> (Inr (), upd_floating_ip fl (\<lambda>f. f\<lparr>flo_fixed := Some fx\<rparr>) L))"

text \<open>Modelled from the spec: \<open>db.floating_ip_disassociate\<close>
  (\<open>DisassociateFloating -> previousFixedAddress | NotAllocatedError\<close>) reads and clears the
  association and returns the previously bound fixed address.\<close>

definition ledger_floating_ip_disassociate :: "address \<Rightarrow> ledger \<Rightarrow> (error + address) \<times> ledger" where
  "ledger_floating_ip_disassociate fl L =
     (case floating_ip_of L fl of
        None \<Rightarrow> (Inl AddressNotAllocated, L)
      | Some f \<Rightarrow>
         (case flo_fixed f of
            None \<Rightarrow> (Inl AddressNotAllocated, L)
          | Some fx \<Rightarrow> (Inr fx, upd_floating_ip fl (\<lambda>f. f\<lparr>flo_fixed := None\<rparr>) L)))"

text \<open>Modelled from the spec: \<open>db.floating_ip_deallocate\<close> (\<open>DeallocateFloatingIPAddress\<close>)
  releases the address back to the pool, and fails with \<open>AddressNotAllocated\<close> if the
  address was never allocated: an address the ledger does not hold, or one that no tenant
  holds.\<close>

definition ledger_floating_ip_deallocate :: "address \<Rightarrow> ledger \<Rightarrow> (error + unit) \<times> ledger" where
  "ledger_floating_ip_deallocate fl L =
     (case floating_ip_of L fl of
        None \<Rightarrow> (Inl AddressNotAllocated, L)
      | Some f \<Rightarrow>
         (case flo_project f of
            None \<Rightarrow> (Inl AddressNotAllocated, L)
          | Some _ \<Rightarrow> (Inr (), upd_floating_ip fl (\<lambda>f. f\<lparr>flo_project := None\<rparr>) L)))"

definition ledger_db :: "ledger db_api" where
  "ledger_db =
     \<lparr>project_get_network = ledger_project_get_network,
      network_set_host = ledger_network_set_host,
      network_update = ledger_network_update,
      network_get = ledger_network_get,
      network_get_vpn_ip_address = ledger_network_get_vpn_ip_address,
      instance_is_vpn = ledger_instance_is_vpn,
      fixed_ip_allocate_address = ledger_fixed_ip_allocate_address,
      fixed_ip_instance_associate = ledger_fixed_ip_instance_associate,
      fixed_ip_instance_disassociate = ledger_fixed_ip_instance_disassociate,
      fixed_ip_deallocate = ledger_fixed_ip_deallocate,
      fixed_ip_get_by_address = ledger_fixed_ip_get_by_address,
      fixed_ip_lease = ledger_fixed_ip_lease,
      fixed_ip_release = ledger_fixed_ip_release,
      floating_ip_allocate_address = ledger_floating_ip_allocate_address,
      floating_ip_fixed_ip_associate = ledger_floating_ip_fixed_ip_associate,
      floating_ip_disassociate = ledger_floating_ip_disassociate,
      floating_ip_deallocate = ledger_floating_ip_deallocate\<rparr>"

text \<open>A driver whose state is the list of commands that fail; every other command
  succeeds. The driver keeps no other state: the service never reads any.\<close>

definition run_command :: "call \<Rightarrow> call list \<Rightarrow> (error + unit) \<times> call list" where
  "run_command c failing =
     (if c \<in> set failing then (Inl (CollaboratorFailure ''driver''), failing)
      else (Inr (), failing))"

definition scripted_driver :: "(call list) driver_api" where
  "scripted_driver =
     \<lparr>ensure_vlan_bridge = (\<lambda>v b. run_command (Drv_ensure_vlan_bridge v b)),
      ensure_vlan_forward = (\<lambda>a p b. run_command (Drv_ensure_vlan_forward a p b)),
      bind_floating_ip = (\<lambda>a. run_command (Drv_bind_floating_ip a)),
      unbind_floating_ip = (\<lambda>a. run_command (Drv_unbind_floating_ip a)),
      ensure_floating_forward = (\<lambda>a b. run_command (Drv_ensure_floating_forward a b)),
      remove_floating_forward = (\<lambda>a b. run_command (Drv_remove_floating_forward a b))\<rparr>"

definition ledger_env :: "flags \<Rightarrow> (ledger, call list) env" where
  "ledger_env F = \<lparr>FLAGS = F, db = ledger_db, driver = scripted_driver\<rparr>"

definition start :: "ledger \<Rightarrow> call list \<Rightarrow> (ledger, call list) world" where
  "start L failing = \<lparr>ledger_state = L, driver_state = failing, calls = []\<rparr>"

subsection \<open>Repeated allocation\<close>

text \<open>One call of \<open>allocate_fixed_ip\<close> for each instance of the list, in order, each on
  the world the previous call left, with the outcome of every call.\<close>

fun repeat_allocate_fixed_ip ::
    "('l, 'd) env \<Rightarrow> project_id \<Rightarrow> instance_id list \<Rightarrow> ('l, 'd) world
       \<Rightarrow> (error + pyval) list \<times> ('l, 'd) world" where
  "repeat_allocate_fixed_ip E p [] w = ([], w)"
| "repeat_allocate_fixed_ip E p (i # insts) w =
     (case allocate_fixed_ip E p i w of
        (r, w') \<Rightarrow>
          (case repeat_allocate_fixed_ip E p insts w' of
             (rs, w'') \<Rightarrow> (r # rs, w'')))"

text \<open>The free addresses of a network's pool.\<close>

definition pool :: "ledger \<Rightarrow> network_id \<Rightarrow> fixed_ip list" where
  "pool L nid = filter (in_pool nid) (fixed_ips L)"

text \<open>The ledger once an address has been handed out to an instance: marked allocated by
  \<open>db.fixed_ip_allocate_address\<close>, then associated by \<open>db.fixed_ip_instance_associate\<close>.\<close>

definition hand_out :: "address \<Rightarrow> instance_id \<Rightarrow> ledger \<Rightarrow> ledger" where
  "hand_out a i L =
     upd_fixed_ip a (\<lambda>f. f\<lparr>fip_instance := Some i\<rparr>)
       (upd_fixed_ip a (\<lambda>f. f\<lparr>allocated := True\<rparr>) L)"

subsection \<open>A small deployment\<close>

text \<open>A flat network of tenant A with two free addresses and a VLAN network of tenant
  B: its reserved VPN address, a leased address, an allocated address that is not leased;
  one associated and one unallocated floating address; one VPN instance.\<close>

definition net_a :: network where
  "net_a =
     \<lparr>net_id = 1, project = ''tenantA'', kind = Some ''flat'', node_name_of = None,
      injected = False, vlan = 0, bridge = [], network_str = [], netmask = [],
      gateway = [], broadcast = [], dns = [], vpn_public_ip_str = [],
      vpn_public_port = 0, vpn_private_ip_str = []\<rparr>"

definition net_b :: network where
  "net_b =
     \<lparr>net_id = 2, project = ''tenantB'', kind = Some ''vlan'', node_name_of = None,
      injected = False, vlan = 105, bridge = ''br105'', network_str = ''10.0.1.0'',
      netmask = ''255.255.255.0'', gateway = ''10.0.1.1'', broadcast = ''10.0.1.255'',
      dns = ''8.8.4.4'', vpn_public_ip_str = ''4.4.4.1'', vpn_public_port = 1001,
      vpn_private_ip_str = ''10.0.1.2''\<rparr>"

definition fip :: "address \<Rightarrow> network_id \<Rightarrow> instance_id option \<Rightarrow> bool \<Rightarrow> bool \<Rightarrow> fixed_ip" where
  "fip a n i l al =
     \<lparr>fip_address = a, fip_network = n, fip_instance = i, leased = l, allocated = al\<rparr>"

definition ledger0 :: ledger where
  "ledger0 =
     \<lparr>networks = [net_a, net_b],
      fixed_ips =
        [fip ''192.168.0.2'' 1 None False False,
         fip ''192.168.0.3'' 1 None False False,
         fip ''10.0.1.2'' 2 None False True,
         fip ''10.0.1.3'' 2 (Some ''i-1'') True True,
         fip ''10.0.1.4'' 2 (Some ''i-2'') False True],
      floating_ips =
        [\<lparr>flo_address = ''4.4.4.10'', flo_host = ''host1'', flo_project = Some ''tenantB'',
          flo_fixed = Some ''10.0.1.3''\<rparr>,
         \<lparr>flo_address = ''4.4.4.11'', flo_host = ''host1'', flo_project = None,
          flo_fixed = None\<rparr>],
      vpn_instances = [''vpn-instance-1'']\<rparr>"

definition env0 :: "(ledger, call list) env" where
  "env0 = ledger_env (default_flags ''host1'')"

section \<open>Properties\<close>

subsection \<open>Running the sequencing\<close>

lemma and_then_run:
  "and_then m f w = (case fst (m w) of Inl e \<Rightarrow> (Inl e, snd (m w)) | Inr x \<Rightarrow> f x (snd (m w)))"
  by (simp add: and_then_def split: prod.splits sum.splits)

lemma db_call_run:
  "db_call c f w =
     (fst (f (ledger_state w)),
      w\<lparr>ledger_state := snd (f (ledger_state w)), calls := calls w @ [c]\<rparr>)"
  by (simp add: db_call_def split: prod.splits)

lemma driver_call_run:
  "driver_call c f w =
     (fst (f (driver_state w)),
      w\<lparr>driver_state := snd (f (driver_state w)), calls := calls w @ [c]\<rparr>)"
  by (simp add: driver_call_def split: prod.splits)

lemmas run_simps =
  and_then_run db_call_run driver_call_run returns_def raise_def
  db_project_get_network_def db_network_set_host_def db_network_update_def db_network_get_def
  db_network_get_vpn_ip_address_def db_instance_is_vpn_def db_fixed_ip_allocate_address_def
  db_fixed_ip_instance_associate_def db_fixed_ip_instance_disassociate_def
  db_fixed_ip_deallocate_def db_fixed_ip_get_by_address_def db_fixed_ip_lease_def
  db_fixed_ip_release_def db_floating_ip_allocate_address_def
  db_floating_ip_fixed_ip_associate_def db_floating_ip_disassociate_def
  db_floating_ip_deallocate_def driver_ensure_vlan_bridge_def driver_ensure_vlan_forward_def
  driver_bind_floating_ip_def driver_unbind_floating_ip_def driver_ensure_floating_forward_def
  driver_remove_floating_forward_def

lemmas ledger_defs =
  ledger_env_def ledger_db_def scripted_driver_def start_def run_command_def
  network_of_def fixed_ip_of_def floating_ip_of_def
  upd_network_def upd_fixed_ip_def upd_floating_ip_def write_fixed_ip_def
  ledger_project_get_network_def ledger_network_get_def ledger_network_set_host_def
  ledger_network_update_def ledger_network_get_vpn_ip_address_def ledger_instance_is_vpn_def
  in_pool_def ledger_fixed_ip_allocate_address_def ledger_fixed_ip_get_by_address_def
  ledger_fixed_ip_instance_associate_def ledger_fixed_ip_instance_disassociate_def
  ledger_fixed_ip_deallocate_def ledger_fixed_ip_lease_def ledger_fixed_ip_release_def
  ledger_floating_ip_allocate_address_def ledger_floating_ip_fixed_ip_associate_def
  ledger_floating_ip_disassociate_def ledger_floating_ip_deallocate_def

lemmas fixture_defs = env0_def net_a_def net_b_def fip_def ledger0_def default_flags_def

subsection \<open>Reading the ledger after a write\<close>

lemma find_key_map:
  assumes "\<And>x. key (g x) = key x"
  shows "find (\<lambda>x. key x = k') (map (\<lambda>x. if key x = k then g x else x) xs) =
         (if k' = k then map_option g (find (\<lambda>x. key x = k) xs) else find (\<lambda>x. key x = k') xs)"
  using assms by (induction xs) auto

lemma network_of_upd_network:
  assumes "\<And>n. net_id (g n) = net_id n"
  shows "network_of (upd_network nid g L) nid' =
         (if nid' = nid then map_option g (network_of L nid) else network_of L nid')"
  using find_key_map [of net_id g, OF assms]
  by (simp add: network_of_def upd_network_def)

lemma fixed_ip_of_upd_fixed_ip:
  assumes "\<And>f. fip_address (g f) = fip_address f"
  shows "fixed_ip_of (upd_fixed_ip a g L) a' =
         (if a' = a then map_option g (fixed_ip_of L a) else fixed_ip_of L a')"
  using find_key_map [of fip_address g, OF assms]
  by (simp add: fixed_ip_of_def upd_fixed_ip_def)

lemma floating_ip_of_upd_floating_ip:
  assumes "\<And>f. flo_address (g f) = flo_address f"
  shows "floating_ip_of (upd_floating_ip a g L) a' =
         (if a' = a then map_option g (floating_ip_of L a) else floating_ip_of L a')"
  using find_key_map [of flo_address g, OF assms]
  by (simp add: floating_ip_of_def upd_floating_ip_def)

lemma net_id_set_field: "net_id (set_field kv n) = net_id n"
  by (cases kv; cases "snd kv") auto

lemma net_id_fold_set_field: "net_id (fold set_field fs n) = net_id n"
  by (induction fs arbitrary: n) (simp_all add: net_id_set_field)

lemma kind_flat_net: "kind (fold set_field (flat_net F) n) = Some (network_type F)"
  by (simp add: flat_net_def)

subsection \<open>The topology registry\<close>

text \<open>
  C3. \<open>type_to_class\<close>: an unset or empty identifier is replaced by the configured default
  \<open>FLAGS.network_type\<close> and the lookup goes on with it; \<open>'flat'\<close> gives
  \<open>FlatNetworkService\<close>; \<open>'vlan'\<close> gives \<open>VlanNetworkService\<close>; every other identifier
  raises \<open>NotFound\<close> (the unknown-topology error) and never falls back to a default.
\<close>

theorem type_to_class_cases:
  "(falsy ntype \<longrightarrow> type_to_class F ntype = type_to_class F (Some (network_type F))) \<and>
   type_to_class F (Some ''flat'') = Inr FlatNetworkService \<and>
   type_to_class F (Some ''vlan'') = Inr VlanNetworkService \<and>
   (s \<noteq> [] \<and> s \<noteq> ''flat'' \<and> s \<noteq> ''vlan'' \<longrightarrow>
      type_to_class F (Some s) = Inl (NotFound (''Couldn't find '' @ s @ '' network type'')))"
  by (simp add: type_to_class_def falsy_def)

theorem type_to_class_cases_witness:
  "falsy None \<and> type_to_class (default_flags ''host1'') None = Inr FlatNetworkService \<and>
   ''bogus'' \<noteq> [] \<and> ''bogus'' \<noteq> ''flat'' \<and> ''bogus'' \<noteq> ''vlan'' \<and>
   type_to_class (default_flags ''host1'') (Some ''bogus'') =
     Inl (NotFound ''Couldn't find bogus network type'')"
  using type_to_class_cases [of None "default_flags ''host1''" "''bogus''"]
  by (simp add: falsy_def default_flags_def)

subsection \<open>Floating addresses\<close>

text \<open>
  C5. \<open>associate_floating_ip\<close> first writes the association to the ledger and makes no
  other ledger call, so the ledger is left as that write left it in every outcome: a later
  driver failure does not roll the write back. If the write raises, no driver command is
  issued. After the write the driver is asked to bind the floating address, and after a
  successful bind to forward from the floating to the fixed address: exactly these two
  commands, in this order, when none fails.
\<close>

theorem associate_floating_ip_order:
  fixes E :: "('l, 'd) env"
  shows
  "ledger_state (snd (associate_floating_ip E fl fx w)) =
     snd (floating_ip_fixed_ip_associate (db E) fl fx (ledger_state w)) \<and>
   (fst (floating_ip_fixed_ip_associate (db E) fl fx (ledger_state w)) = Inl e \<longrightarrow>
      fst (associate_floating_ip E fl fx w) = Inl e \<and>
      driver_state (snd (associate_floating_ip E fl fx w)) = driver_state w \<and>
      calls (snd (associate_floating_ip E fl fx w)) =
        calls w @ [Db_floating_ip_fixed_ip_associate fl fx]) \<and>
   (fst (floating_ip_fixed_ip_associate (db E) fl fx (ledger_state w)) = Inr () \<and>
    fst (bind_floating_ip (driver E) fl (driver_state w)) = Inl e \<longrightarrow>
      fst (associate_floating_ip E fl fx w) = Inl e \<and>
      calls (snd (associate_floating_ip E fl fx w)) =
        calls w @ [Db_floating_ip_fixed_ip_associate fl fx, Drv_bind_floating_ip fl]) \<and>
   (fst (floating_ip_fixed_ip_associate (db E) fl fx (ledger_state w)) = Inr () \<and>
    fst (bind_floating_ip (driver E) fl (driver_state w)) = Inr () \<longrightarrow>
      fst (associate_floating_ip E fl fx w) =
        (case fst (ensure_floating_forward (driver E) fl fx
                     (snd (bind_floating_ip (driver E) fl (driver_state w)))) of
           Inl e' \<Rightarrow> Inl e' | Inr _ \<Rightarrow> Inr PyNone) \<and>
      calls (snd (associate_floating_ip E fl fx w)) =
        calls w @ [Db_floating_ip_fixed_ip_associate fl fx, Drv_bind_floating_ip fl,
                   Drv_ensure_floating_forward fl fx])"
  by (simp add: associate_floating_ip_def run_simps split: sum.splits)

text \<open>Tenant B's address \<open>4.4.4.11\<close> is bound to \<open>10.0.1.4\<close> on a driver that fails to set
  up forwarding: the operation raises after both commands, and the ledger keeps the
  association.\<close>

theorem associate_floating_ip_order_witness:
  "fst (floating_ip_fixed_ip_associate (db env0) ''4.4.4.11'' ''10.0.1.4'' ledger0) = Inr () \<and>
   fst (bind_floating_ip (driver env0) ''4.4.4.11''
          [Drv_ensure_floating_forward ''4.4.4.11'' ''10.0.1.4'']) = Inr () \<and>
   fst (associate_floating_ip env0 ''4.4.4.11'' ''10.0.1.4''
          (start ledger0 [Drv_ensure_floating_forward ''4.4.4.11'' ''10.0.1.4''])) =
     Inl (CollaboratorFailure ''driver'') \<and>
   calls (snd (associate_floating_ip env0 ''4.4.4.11'' ''10.0.1.4''
          (start ledger0 [Drv_ensure_floating_forward ''4.4.4.11'' ''10.0.1.4'']))) =
     [Db_floating_ip_fixed_ip_associate ''4.4.4.11'' ''10.0.1.4'',
      Drv_bind_floating_ip ''4.4.4.11'',
      Drv_ensure_floating_forward ''4.4.4.11'' ''10.0.1.4''] \<and>
   map flo_fixed (floating_ips (ledger_state (snd (associate_floating_ip env0
          ''4.4.4.11'' ''10.0.1.4''
          (start ledger0 [Drv_ensure_floating_forward ''4.4.4.11'' ''10.0.1.4'']))))) =
     [Some ''10.0.1.3'', Some ''10.0.1.4'']"
  using associate_floating_ip_order
    [of env0 "''4.4.4.11''" "''10.0.1.4''"
        "start ledger0 [Drv_ensure_floating_forward ''4.4.4.11'' ''10.0.1.4'']"]
  by (simp add: ledger_defs fixture_defs)

subsection \<open>The flat topology\<close>

text \<open>
  C7. The host-assignment hook of \<open>FlatNetworkService\<close> makes exactly one collaborator
  call, \<open>db.network_update\<close> on the network, whose fields carry \<open>injected = True\<close> and the
  static parameters of the flags: bridge, network, netmask, gateway, broadcast and DNS.
  It issues no driver command and leaves the driver as it was.
\<close>

theorem flat_hook_one_update:
  "calls (snd (flat_on_set_network_host E nid w)) =
     calls w @ [Db_network_update nid (flat_net (FLAGS E))] \<and>
   ledger_state (snd (flat_on_set_network_host E nid w)) =
     snd (network_update (db E) nid (flat_net (FLAGS E)) (ledger_state w)) \<and>
   driver_state (snd (flat_on_set_network_host E nid w)) = driver_state w \<and>
   filter is_driver_call (calls (snd (flat_on_set_network_host E nid w))) =
     filter is_driver_call (calls w) \<and>
   map_of (flat_net (FLAGS E)) ''injected'' = Some (B True) \<and>
   map_of (flat_net (FLAGS E)) ''bridge'' = Some (S (flat_network_bridge (FLAGS E))) \<and>
   map_of (flat_net (FLAGS E)) ''network_str'' = Some (S (flat_network_network (FLAGS E))) \<and>
   map_of (flat_net (FLAGS E)) ''netmask'' = Some (S (flat_network_netmask (FLAGS E))) \<and>
   map_of (flat_net (FLAGS E)) ''gateway'' = Some (S (flat_network_gateway (FLAGS E))) \<and>
   map_of (flat_net (FLAGS E)) ''broadcast'' = Some (S (flat_network_broadcast (FLAGS E))) \<and>
   map_of (flat_net (FLAGS E)) ''dns'' = Some (S (flat_network_dns (FLAGS E)))"
proof -
  have run: "flat_on_set_network_host E nid w =
      (case network_update (db E) nid (flat_net (FLAGS E)) (ledger_state w) of
         (r, l') \<Rightarrow>
           (case r of Inl e \<Rightarrow> Inl e | Inr _ \<Rightarrow> Inr PyNone,
            w\<lparr>ledger_state := l',
              calls := calls w @ [Db_network_update nid (flat_net (FLAGS E))]\<rparr>))"
    by (simp add: flat_on_set_network_host_def run_simps Let_def split: prod.splits sum.splits)
  have fields: "map_of (flat_net (FLAGS E)) ''injected'' = Some (B True)"
    "map_of (flat_net (FLAGS E)) ''bridge'' = Some (S (flat_network_bridge (FLAGS E)))"
    "map_of (flat_net (FLAGS E)) ''network_str'' = Some (S (flat_network_network (FLAGS E)))"
    "map_of (flat_net (FLAGS E)) ''netmask'' = Some (S (flat_network_netmask (FLAGS E)))"
    "map_of (flat_net (FLAGS E)) ''gateway'' = Some (S (flat_network_gateway (FLAGS E)))"
    "map_of (flat_net (FLAGS E)) ''broadcast'' = Some (S (flat_network_broadcast (FLAGS E)))"
    "map_of (flat_net (FLAGS E)) ''dns'' = Some (S (flat_network_dns (FLAGS E)))"
    by (simp_all add: flat_net_def)
  show ?thesis
    unfolding run using fields by (simp split: prod.splits)
qed

text \<open>
  C10. The \<open>kind\<close> that the flat hook writes is the configured \<open>FLAGS.network_type\<close>, not
  the literal \<open>'flat'\<close>: that is the value under \<open>'kind'\<close> in the fields it hands to
  \<open>db.network_update\<close>, and on the ledger the network's recorded kind is that value once
  the hook has run.
\<close>

theorem flat_hook_writes_configured_kind:
  fixes E :: "(ledger, 'd) env"
  shows
  "map_of (flat_net (FLAGS E)) ''kind'' = Some (S (network_type (FLAGS E))) \<and>
   (db E = ledger_db \<and> network_of (ledger_state w) nid = Some n \<longrightarrow>
      fst (flat_on_set_network_host E nid w) = Inr PyNone \<and>
      map_option kind (network_of (ledger_state (snd (flat_on_set_network_host E nid w))) nid) =
        Some (Some (network_type (FLAGS E))))"
proof -
  have k: "map_of (flat_net (FLAGS E)) ''kind'' = Some (S (network_type (FLAGS E)))"
    by (simp add: flat_net_def)
  have "fst (flat_on_set_network_host E nid w) = Inr PyNone \<and>
      map_option kind (network_of (ledger_state (snd (flat_on_set_network_host E nid w))) nid) =
        Some (Some (network_type (FLAGS E)))"
    if "db E = ledger_db" "network_of (ledger_state w) nid = Some n"
    using that
    by (simp add: flat_on_set_network_host_def run_simps Let_def ledger_db_def
          ledger_network_update_def network_of_upd_network net_id_fold_set_field kind_flat_net)
  with k show ?thesis by blast
qed

text \<open>With \<open>FLAGS.network_type = 'vlan'\<close>, assigning a host to tenant A's flat network
  relabels it \<open>'vlan'\<close>.\<close>

theorem flat_hook_writes_configured_kind_witness:
  "db (ledger_env ((default_flags ''host1'')\<lparr>network_type := ''vlan''\<rparr>)) = ledger_db \<and>
   map_option kind (network_of ledger0 1) = Some (Some ''flat'') \<and>
   fst (set_network_host FlatNetworkService
          (ledger_env ((default_flags ''host1'')\<lparr>network_type := ''vlan''\<rparr>)) ''tenantA''
          (start ledger0 [])) = Inr (PyStr ''host1'') \<and>
   map_option kind (network_of (ledger_state (snd (flat_on_set_network_host
          (ledger_env ((default_flags ''host1'')\<lparr>network_type := ''vlan''\<rparr>)) 1
          (start ledger0 [])))) 1) = Some (Some ''vlan'') \<and>
   map_option kind (network_of (ledger_state (snd (set_network_host FlatNetworkService
          (ledger_env ((default_flags ''host1'')\<lparr>network_type := ''vlan''\<rparr>)) ''tenantA''
          (start ledger0 [])))) 1) = Some (Some ''vlan'')"
  using flat_hook_writes_configured_kind
    [of "ledger_env ((default_flags ''host1'')\<lparr>network_type := ''vlan''\<rparr>)"
        "start ledger0 []" 1 net_a]
  by (simp add: ledger_defs fixture_defs set_network_host_def flat_on_set_network_host_def
        run_simps Let_def flat_net_def)

text \<open>
  C9. \<open>deallocate_floating_ip\<close> makes the one call \<open>db.floating_ip_deallocate\<close> and hands
  on what the ledger does: on the ledger, an address that was never allocated (one the
  ledger does not hold, or one no tenant holds) raises \<open>AddressNotAllocated\<close> and nothing
  changes; an allocated address is released back to the pool, held by no tenant.
\<close>

theorem deallocate_floating_ip_cases:
  fixes E :: "(ledger, 'd) env"
  shows
  "(db E = ledger_db \<and>
    (floating_ip_of (ledger_state w) fl = None \<or>
     (\<exists>f. floating_ip_of (ledger_state w) fl = Some f \<and> flo_project f = None)) \<longrightarrow>
      deallocate_floating_ip E fl w =
        (Inl AddressNotAllocated, w\<lparr>calls := calls w @ [Db_floating_ip_deallocate fl]\<rparr>)) \<and>
   (db E = ledger_db \<and> floating_ip_of (ledger_state w) fl = Some f \<and> flo_project f = Some p \<longrightarrow>
      fst (deallocate_floating_ip E fl w) = Inr PyNone \<and>
      calls (snd (deallocate_floating_ip E fl w)) = calls w @ [Db_floating_ip_deallocate fl] \<and>
      floating_ip_of (ledger_state (snd (deallocate_floating_ip E fl w))) fl =
        Some (f\<lparr>flo_project := None\<rparr>))"
  by (auto simp add: deallocate_floating_ip_def run_simps ledger_db_def
        ledger_floating_ip_deallocate_def floating_ip_of_upd_floating_ip)

theorem deallocate_floating_ip_cases_witness:
  "db env0 = ledger_db \<and>
   (\<exists>f. floating_ip_of ledger0 ''4.4.4.11'' = Some f \<and> flo_project f = None) \<and>
   fst (deallocate_floating_ip env0 ''4.4.4.11'' (start ledger0 [])) = Inl AddressNotAllocated \<and>
   floating_ip_of ledger0 ''1.2.3.4'' = None \<and>
   fst (deallocate_floating_ip env0 ''1.2.3.4'' (start ledger0 [])) = Inl AddressNotAllocated \<and>
   map_option flo_project (floating_ip_of ledger0 ''4.4.4.10'') = Some (Some ''tenantB'') \<and>
   fst (deallocate_floating_ip env0 ''4.4.4.10'' (start ledger0 [])) = Inr PyNone \<and>
   map_option flo_project (floating_ip_of (ledger_state (snd
      (deallocate_floating_ip env0 ''4.4.4.10'' (start ledger0 [])))) ''4.4.4.10'') = Some None"
  using deallocate_floating_ip_cases [of env0 "start ledger0 []" "''4.4.4.11''"]
    deallocate_floating_ip_cases [of env0 "start ledger0 []" "''1.2.3.4''"]
    deallocate_floating_ip_cases [of env0 "start ledger0 []" "''4.4.4.10''"
      "\<lparr>flo_address = ''4.4.4.10'', flo_host = ''host1'', flo_project = Some ''tenantB'',
          flo_fixed = Some ''10.0.1.3''\<rparr>" "''tenantB''"]
  by (simp add: ledger_defs fixture_defs)

text \<open>
  C2, as the code has it. \<open>disassociate_floating_ip\<close> makes one ledger call,
  \<open>db.floating_ip_disassociate\<close>, which on the ledger clears the association of an
  associated floating address and hands the previously bound fixed address to the service.
  The service then asks the driver to unbind the floating address and to remove the
  forwarding from the floating address to that fixed address, exactly these two commands
  in this order when none fails. The operation itself returns nothing (\<open>None\<close>) to its
  caller.
\<close>

theorem disassociate_floating_ip_order:
  fixes E :: "('l, 'd) env" and E' :: "(ledger, 'd) env" and w' :: "(ledger, 'd) world"
  shows
  "ledger_state (snd (disassociate_floating_ip E fl w)) =
     snd (floating_ip_disassociate (db E) fl (ledger_state w)) \<and>
   (fst (floating_ip_disassociate (db E) fl (ledger_state w)) = Inr fx \<and>
    fst (unbind_floating_ip (driver E) fl (driver_state w)) = Inr () \<and>
    fst (remove_floating_forward (driver E) fl fx
           (snd (unbind_floating_ip (driver E) fl (driver_state w)))) = Inr () \<longrightarrow>
      fst (disassociate_floating_ip E fl w) = Inr PyNone \<and>
      calls (snd (disassociate_floating_ip E fl w)) =
        calls w @ [Db_floating_ip_disassociate fl, Drv_unbind_floating_ip fl,
                   Drv_remove_floating_forward fl fx]) \<and>
   (db E' = ledger_db \<and> floating_ip_of (ledger_state w') fl = Some f \<and> flo_fixed f = Some fx \<longrightarrow>
      fst (floating_ip_disassociate (db E') fl (ledger_state w')) = Inr fx \<and>
      floating_ip_of (ledger_state (snd (disassociate_floating_ip E' fl w'))) fl =
        Some (f\<lparr>flo_fixed := None\<rparr>))"
  by (auto simp add: disassociate_floating_ip_def run_simps ledger_db_def
        ledger_floating_ip_disassociate_def floating_ip_of_upd_floating_ip split: sum.splits)

text \<open>Tenant B's address \<open>4.4.4.10\<close>, bound to \<open>10.0.1.3\<close>, is disassociated.\<close>

theorem disassociate_floating_ip_order_witness:
  "fst (floating_ip_disassociate (db env0) ''4.4.4.10'' ledger0) = Inr ''10.0.1.3'' \<and>
   fst (unbind_floating_ip (driver env0) ''4.4.4.10'' []) = Inr () \<and>
   fst (remove_floating_forward (driver env0) ''4.4.4.10'' ''10.0.1.3'' []) = Inr () \<and>
   db env0 = ledger_db \<and>
   map_option flo_fixed (floating_ip_of ledger0 ''4.4.4.10'') = Some (Some ''10.0.1.3'') \<and>
   disassociate_floating_ip env0 ''4.4.4.10'' (start ledger0 []) =
     (Inr PyNone,
      \<lparr>ledger_state = upd_floating_ip ''4.4.4.10'' (\<lambda>f. f\<lparr>flo_fixed := None\<rparr>) ledger0,
       driver_state = [],
       calls = [Db_floating_ip_disassociate ''4.4.4.10'', Drv_unbind_floating_ip ''4.4.4.10'',
                Drv_remove_floating_forward ''4.4.4.10'' ''10.0.1.3'']\<rparr>) \<and>
   map_option flo_fixed (floating_ip_of (ledger_state (snd
      (disassociate_floating_ip env0 ''4.4.4.10'' (start ledger0 [])))) ''4.4.4.10'') = Some None"
  using disassociate_floating_ip_order
    [of env0 "''4.4.4.10''" "start ledger0 []" "''10.0.1.3''" env0 "start ledger0 []"
      "\<lparr>flo_address = ''4.4.4.10'', flo_host = ''host1'', flo_project = Some ''tenantB'',
          flo_fixed = Some ''10.0.1.3''\<rparr>"]
  by (simp add: disassociate_floating_ip_def run_simps ledger_defs fixture_defs)

text \<open>C2, as stated, fails: for the floating address \<open>4.4.4.10\<close> bound to \<open>10.0.1.3\<close> the
  ledger returns \<open>10.0.1.3\<close> to the service, and the service returns \<open>None\<close> to its
  caller, not the fixed address: the body has no \<open>return\<close> statement.\<close>

theorem disassociate_floating_ip_returns_none:
  "fst (floating_ip_disassociate (db env0) ''4.4.4.10'' ledger0) = Inr ''10.0.1.3'' \<and>
   fst (disassociate_floating_ip env0 ''4.4.4.10'' (start ledger0 [])) = Inr PyNone \<and>
   fst (disassociate_floating_ip env0 ''4.4.4.10'' (start ledger0 [])) \<noteq> Inr (PyStr ''10.0.1.3'')"
  by (simp add: disassociate_floating_ip_def run_simps ledger_defs fixture_defs)

subsection \<open>Host assignment\<close>

text \<open>The hook of each class only adds calls, none of them \<open>db.network_set_host\<close>.\<close>

lemma hook_appends:
  "\<exists>cs. calls (snd (on_set_network_host self E nid w)) = calls w @ cs \<and>
        (\<forall>c \<in> set cs. \<forall>n h. c \<noteq> Db_network_set_host n h)"
  by (cases self)
     (auto simp add: base_on_set_network_host_def flat_on_set_network_host_def
        vlan_on_set_network_host_def run_simps Let_def split: sum.splits)

text \<open>
  C6. \<open>set_network_host\<close> reads the tenant's network and issues \<open>db.network_set_host\<close>
  before the hook of its class. If the ledger update raises, the operation stops there:
  the calls end with the update and the hook has not run. If the update succeeds, the hook
  runs on the world the update left, and the operation ends with the world the hook left,
  also when the hook raises: nothing undoes the update, and the hook itself only adds
  calls, none of them \<open>db.network_set_host\<close>.
\<close>

theorem set_network_host_order:
  fixes E :: "('l, 'd) env"
  shows
  "(fst (project_get_network (db E) p (ledger_state w)) = Inr net \<and>
    fst (network_set_host (db E) (net_id net) (node_name (FLAGS E))
           (snd (project_get_network (db E) p (ledger_state w)))) = Inl e \<longrightarrow>
      set_network_host self E p w =
        (Inl e,
         w\<lparr>ledger_state := snd (network_set_host (db E) (net_id net) (node_name (FLAGS E))
                                  (snd (project_get_network (db E) p (ledger_state w)))),
           calls := calls w @ [Db_project_get_network p,
                               Db_network_set_host (net_id net) (node_name (FLAGS E))]\<rparr>)) \<and>
   (fst (project_get_network (db E) p (ledger_state w)) = Inr net \<and>
    fst (network_set_host (db E) (net_id net) (node_name (FLAGS E))
           (snd (project_get_network (db E) p (ledger_state w)))) = Inr h \<longrightarrow>
      set_network_host self E p w =
        (case on_set_network_host self E (net_id net)
                (w\<lparr>ledger_state := snd (network_set_host (db E) (net_id net) (node_name (FLAGS E))
                                         (snd (project_get_network (db E) p (ledger_state w)))),
                   calls := calls w @ [Db_project_get_network p,
                                       Db_network_set_host (net_id net) (node_name (FLAGS E))]\<rparr>) of
           (r, w') \<Rightarrow> (case r of Inl e' \<Rightarrow> Inl e' | Inr _ \<Rightarrow> Inr (PyStr h), w'))) \<and>
   (\<exists>cs. calls (snd (on_set_network_host self E nid w)) = calls w @ cs \<and>
         (\<forall>c \<in> set cs. \<forall>n h. c \<noteq> Db_network_set_host n h))"
proof -
  have a: "set_network_host self E p w =
        (Inl e,
         w\<lparr>ledger_state := snd (network_set_host (db E) (net_id net) (node_name (FLAGS E))
                                  (snd (project_get_network (db E) p (ledger_state w)))),
           calls := calls w @ [Db_project_get_network p,
                               Db_network_set_host (net_id net) (node_name (FLAGS E))]\<rparr>)"
    if "fst (project_get_network (db E) p (ledger_state w)) = Inr net"
       "fst (network_set_host (db E) (net_id net) (node_name (FLAGS E))
           (snd (project_get_network (db E) p (ledger_state w)))) = Inl e"
    using that by (simp add: set_network_host_def run_simps Let_def)
  have b: "set_network_host self E p w =
        (case on_set_network_host self E (net_id net)
                (w\<lparr>ledger_state := snd (network_set_host (db E) (net_id net) (node_name (FLAGS E))
                                         (snd (project_get_network (db E) p (ledger_state w)))),
                   calls := calls w @ [Db_project_get_network p,
                                       Db_network_set_host (net_id net) (node_name (FLAGS E))]\<rparr>) of
           (r, w') \<Rightarrow> (case r of Inl e' \<Rightarrow> Inl e' | Inr _ \<Rightarrow> Inr (PyStr h), w'))"
    if "fst (project_get_network (db E) p (ledger_state w)) = Inr net"
       "fst (network_set_host (db E) (net_id net) (node_name (FLAGS E))
           (snd (project_get_network (db E) p (ledger_state w)))) = Inr h"
    using that
    by (simp add: set_network_host_def and_then_run db_call_run returns_def
          db_project_get_network_def db_network_set_host_def Let_def
          split: prod.splits sum.splits)
  from a b hook_appends [of self E nid w] show ?thesis by blast
qed

text \<open>On tenant B's VLAN network with a driver that fails to create the bridge, the
  operation raises and the ledger keeps \<open>host1\<close> as the host. On a ledger whose host update
  fails, the flat hook's \<open>db.network_update\<close> is never issued.\<close>

theorem set_network_host_order_witness:
  "fst (project_get_network (db env0) ''tenantB'' ledger0) = Inr net_b \<and>
   fst (network_set_host (db env0) 2 ''host1'' ledger0) = Inr ''host1'' \<and>
   set_network_host VlanNetworkService env0 ''tenantB''
       (start ledger0 [Drv_ensure_vlan_bridge 105 ''br105'']) =
     (Inl (CollaboratorFailure ''driver''),
      \<lparr>ledger_state = upd_network 2 (\<lambda>n. n\<lparr>node_name_of := Some ''host1''\<rparr>) ledger0,
       driver_state = [Drv_ensure_vlan_bridge 105 ''br105''],
       calls = [Db_project_get_network ''tenantB'', Db_network_set_host 2 ''host1'',
                Db_network_get 2, Drv_ensure_vlan_bridge 105 ''br105'']\<rparr>) \<and>
   map_option node_name_of (network_of (ledger_state (snd
      (set_network_host VlanNetworkService env0 ''tenantB''
         (start ledger0 [Drv_ensure_vlan_bridge 105 ''br105''])))) 2) = Some (Some ''host1'') \<and>
   fst (network_set_host
          (db (env0\<lparr>db := ledger_db\<lparr>network_set_host :=
                  (\<lambda>n h L. (Inl (CollaboratorFailure ''ledger''), L))\<rparr>\<rparr>)) 1 ''host1'' ledger0) =
     Inl (CollaboratorFailure ''ledger'') \<and>
   set_network_host FlatNetworkService
       (env0\<lparr>db := ledger_db\<lparr>network_set_host :=
                  (\<lambda>n h L. (Inl (CollaboratorFailure ''ledger''), L))\<rparr>\<rparr>) ''tenantA''
       (start ledger0 []) =
     (Inl (CollaboratorFailure ''ledger''),
      \<lparr>ledger_state = ledger0, driver_state = [],
       calls = [Db_project_get_network ''tenantA'', Db_network_set_host 1 ''host1'']\<rparr>)"
  using set_network_host_order
    [of env0 "''tenantB''" "start ledger0 [Drv_ensure_vlan_bridge 105 ''br105'']" net_b
        _ VlanNetworkService "''host1''"]
    set_network_host_order
    [of "env0\<lparr>db := ledger_db\<lparr>network_set_host :=
                  (\<lambda>n h L. (Inl (CollaboratorFailure ''ledger''), L))\<rparr>\<rparr>"
        "''tenantA''" "start ledger0 []" net_a "CollaboratorFailure ''ledger''"
        FlatNetworkService]
  by (simp add: set_network_host_def vlan_on_set_network_host_def flat_on_set_network_host_def
        run_simps Let_def ledger_defs fixture_defs)

subsection \<open>The VLAN topology\<close>

text \<open>
  C4. \<open>VlanNetworkService.setup_fixed_ip\<close> reads the tenant's network and asks the ledger
  whether the instance is a VPN endpoint. If it is, the operation returns the address that
  \<open>db.network_get_vpn_ip_address\<close> gives for the network, records the instance for that
  address, and asks the driver to ensure VPN forwarding from the network's public address
  and port to its private address; \<open>db.fixed_ip_allocate_address\<close> is not called, whatever
  fails. If it is not, the operation is \<open>BaseNetworkService.allocate_fixed_ip\<close>, run after
  the two reads.
\<close>

theorem setup_fixed_ip_cases:
  fixes E :: "('l, 'd) env"
  shows
  "(fst (project_get_network (db E) p (ledger_state w)) = Inr net \<and>
    fst (instance_is_vpn (db E) i (snd (project_get_network (db E) p (ledger_state w)))) = Inr True \<and>
    fst (network_get_vpn_ip_address (db E) (net_id net)
           (snd (instance_is_vpn (db E) i (snd (project_get_network (db E) p (ledger_state w)))))) =
      Inr a \<and>
    fst (fixed_ip_instance_associate (db E) a i
           (snd (network_get_vpn_ip_address (db E) (net_id net)
              (snd (instance_is_vpn (db E) i
                 (snd (project_get_network (db E) p (ledger_state w)))))))) = Inr () \<and>
    fst (ensure_vlan_forward (driver E) (vpn_public_ip_str net) (vpn_public_port net)
           (vpn_private_ip_str net) (driver_state w)) = Inr () \<longrightarrow>
      fst (setup_fixed_ip E p i w) = Inr (PyStr a) \<and>
      calls (snd (setup_fixed_ip E p i w)) =
        calls w @ [Db_project_get_network p, Db_instance_is_vpn i,
                   Db_network_get_vpn_ip_address (net_id net),
                   Db_fixed_ip_instance_associate a i,
                   Drv_ensure_vlan_forward (vpn_public_ip_str net) (vpn_public_port net)
                     (vpn_private_ip_str net)]) \<and>
   (fst (project_get_network (db E) p (ledger_state w)) = Inr net \<and>
    fst (instance_is_vpn (db E) i (snd (project_get_network (db E) p (ledger_state w)))) = Inr True \<longrightarrow>
      (\<forall>n. Db_fixed_ip_allocate_address n \<notin>
             set (drop (length (calls w)) (calls (snd (setup_fixed_ip E p i w)))))) \<and>
   (fst (project_get_network (db E) p (ledger_state w)) = Inr net \<and>
    fst (instance_is_vpn (db E) i (snd (project_get_network (db E) p (ledger_state w)))) = Inr False \<longrightarrow>
      setup_fixed_ip E p i w =
        allocate_fixed_ip E p i
          (w\<lparr>ledger_state :=
                snd (instance_is_vpn (db E) i (snd (project_get_network (db E) p (ledger_state w)))),
             calls := calls w @ [Db_project_get_network p, Db_instance_is_vpn i]\<rparr>))"
  by (simp add: setup_fixed_ip_def run_simps split: sum.splits)

text \<open>The VPN instance of tenant B gets the reserved address \<open>10.0.1.2\<close>; an ordinary
  instance of tenant A gets the first free address of the pool.\<close>

theorem setup_fixed_ip_cases_witness:
  "fst (project_get_network (db env0) ''tenantB'' ledger0) = Inr net_b \<and>
   fst (instance_is_vpn (db env0) ''vpn-instance-1'' ledger0) = Inr True \<and>
   fst (network_get_vpn_ip_address (db env0) 2 ledger0) = Inr ''10.0.1.2'' \<and>
   fst (fixed_ip_instance_associate (db env0) ''10.0.1.2'' ''vpn-instance-1'' ledger0) = Inr () \<and>
   fst (ensure_vlan_forward (driver env0) ''4.4.4.1'' 1001 ''10.0.1.2'' []) = Inr () \<and>
   fst (setup_fixed_ip env0 ''tenantB'' ''vpn-instance-1'' (start ledger0 [])) =
     Inr (PyStr ''10.0.1.2'') \<and>
   calls (snd (setup_fixed_ip env0 ''tenantB'' ''vpn-instance-1'' (start ledger0 []))) =
     [Db_project_get_network ''tenantB'', Db_instance_is_vpn ''vpn-instance-1'',
      Db_network_get_vpn_ip_address 2,
      Db_fixed_ip_instance_associate ''10.0.1.2'' ''vpn-instance-1'',
      Drv_ensure_vlan_forward ''4.4.4.1'' 1001 ''10.0.1.2''] \<and>
   map_option fip_instance (fixed_ip_of (ledger_state (snd
      (setup_fixed_ip env0 ''tenantB'' ''vpn-instance-1'' (start ledger0 [])))) ''10.0.1.2'') =
     Some (Some ''vpn-instance-1'') \<and>
   fst (instance_is_vpn (db env0) ''i-7'' ledger0) = Inr False \<and>
   fst (setup_fixed_ip env0 ''tenantA'' ''i-7'' (start ledger0 [])) = Inr (PyStr ''192.168.0.2'') \<and>
   calls (snd (setup_fixed_ip env0 ''tenantA'' ''i-7'' (start ledger0 []))) =
     [Db_project_get_network ''tenantA'', Db_instance_is_vpn ''i-7'',
      Db_project_get_network ''tenantA'', Db_fixed_ip_allocate_address 1,
      Db_fixed_ip_instance_associate ''192.168.0.2'' ''i-7'']"
  using setup_fixed_ip_cases
    [of env0 "''tenantB''" "start ledger0 []" net_b "''vpn-instance-1''" "''10.0.1.2''"]
    setup_fixed_ip_cases
    [of env0 "''tenantA''" "start ledger0 []" net_a "''i-7''"]
  by (simp add: setup_fixed_ip_def allocate_fixed_ip_def run_simps ledger_defs fixture_defs)

text \<open>
  C1. \<open>VlanNetworkService.deallocate_fixed_ip\<close> reads the address's record. If it is
  leased, the only further call is \<open>db.fixed_ip_deallocate\<close>: on the ledger the address
  is no longer allocated, its instance and its lease are as they were, and a later
  \<open>release_fixed_ip\<close> clears both. If it is not leased, the operation is
  \<open>release_fixed_ip\<close>, that is \<open>db.fixed_ip_release\<close> and then
  \<open>db.fixed_ip_instance_disassociate\<close>: on the ledger the lease flag and the instance are
  cleared at once.
\<close>

theorem vlan_deallocate_fixed_ip_two_phase:
  fixes E :: "('l, 'd) env" and E' :: "(ledger, 'd) env" and w' :: "(ledger, 'd) world"
  shows
  "(fst (fixed_ip_get_by_address (db E) a (ledger_state w)) = Inr ref \<and> leased ref \<longrightarrow>
      vlan_deallocate_fixed_ip E a w =
        (case fixed_ip_deallocate (db E) a
                (snd (fixed_ip_get_by_address (db E) a (ledger_state w))) of
           (r, l') \<Rightarrow>
             (case r of Inl e \<Rightarrow> Inl e | Inr _ \<Rightarrow> Inr PyNone,
              w\<lparr>ledger_state := l',
                calls := calls w @ [Db_fixed_ip_get_by_address a, Db_fixed_ip_deallocate a]\<rparr>))) \<and>
   (fst (fixed_ip_get_by_address (db E) a (ledger_state w)) = Inr ref \<and> \<not> leased ref \<longrightarrow>
      vlan_deallocate_fixed_ip E a w =
        release_fixed_ip E a
          (w\<lparr>ledger_state := snd (fixed_ip_get_by_address (db E) a (ledger_state w)),
             calls := calls w @ [Db_fixed_ip_get_by_address a]\<rparr>)) \<and>
   (fst (fixed_ip_release (db E) a (ledger_state w)) = Inr () \<longrightarrow>
      calls (snd (release_fixed_ip E a w)) =
        calls w @ [Db_fixed_ip_release a, Db_fixed_ip_instance_disassociate a]) \<and>
   (db E' = ledger_db \<and> fixed_ip_of (ledger_state w') a = Some f \<and> leased f \<longrightarrow>
      fst (vlan_deallocate_fixed_ip E' a w') = Inr PyNone \<and>
      fixed_ip_of (ledger_state (snd (vlan_deallocate_fixed_ip E' a w'))) a =
        Some (f\<lparr>allocated := False\<rparr>) \<and>
      fst (release_fixed_ip E' a (snd (vlan_deallocate_fixed_ip E' a w'))) = Inr PyNone \<and>
      fixed_ip_of (ledger_state (snd (release_fixed_ip E' a
                     (snd (vlan_deallocate_fixed_ip E' a w'))))) a =
        Some (f\<lparr>fip_instance := None, leased := False, allocated := False\<rparr>)) \<and>
   (db E' = ledger_db \<and> fixed_ip_of (ledger_state w') a = Some f \<and> \<not> leased f \<longrightarrow>
      fst (vlan_deallocate_fixed_ip E' a w') = Inr PyNone \<and>
      fixed_ip_of (ledger_state (snd (vlan_deallocate_fixed_ip E' a w'))) a =
        Some (f\<lparr>fip_instance := None, leased := False\<rparr>))"
proof -
  have A: "vlan_deallocate_fixed_ip E a w =
        (case fixed_ip_deallocate (db E) a
                (snd (fixed_ip_get_by_address (db E) a (ledger_state w))) of
           (r, l') \<Rightarrow>
             (case r of Inl e \<Rightarrow> Inl e | Inr _ \<Rightarrow> Inr PyNone,
              w\<lparr>ledger_state := l',
                calls := calls w @ [Db_fixed_ip_get_by_address a, Db_fixed_ip_deallocate a]\<rparr>))"
    if "fst (fixed_ip_get_by_address (db E) a (ledger_state w)) = Inr ref" "leased ref"
    using that by (simp add: vlan_deallocate_fixed_ip_def run_simps split: prod.splits sum.splits)
  have B: "vlan_deallocate_fixed_ip E a w =
        release_fixed_ip E a
          (w\<lparr>ledger_state := snd (fixed_ip_get_by_address (db E) a (ledger_state w)),
             calls := calls w @ [Db_fixed_ip_get_by_address a]\<rparr>)"
    if "fst (fixed_ip_get_by_address (db E) a (ledger_state w)) = Inr ref" "\<not> leased ref"
    using that
    by (simp add: vlan_deallocate_fixed_ip_def and_then_run db_call_run
          db_fixed_ip_get_by_address_def)
  have C: "calls (snd (release_fixed_ip E a w)) =
        calls w @ [Db_fixed_ip_release a, Db_fixed_ip_instance_disassociate a]"
    if "fst (fixed_ip_release (db E) a (ledger_state w)) = Inr ()"
    using that by (simp add: release_fixed_ip_def run_simps split: sum.splits)
  have D: "fst (vlan_deallocate_fixed_ip E' a w') = Inr PyNone \<and>
      fixed_ip_of (ledger_state (snd (vlan_deallocate_fixed_ip E' a w'))) a =
        Some (f\<lparr>allocated := False\<rparr>) \<and>
      fst (release_fixed_ip E' a (snd (vlan_deallocate_fixed_ip E' a w'))) = Inr PyNone \<and>
      fixed_ip_of (ledger_state (snd (release_fixed_ip E' a
                     (snd (vlan_deallocate_fixed_ip E' a w'))))) a =
        Some (f\<lparr>fip_instance := None, leased := False, allocated := False\<rparr>)"
    if "db E' = ledger_db" "fixed_ip_of (ledger_state w') a = Some f" "leased f"
    using that
    by (simp add: vlan_deallocate_fixed_ip_def release_fixed_ip_def run_simps ledger_db_def
          ledger_fixed_ip_get_by_address_def ledger_fixed_ip_deallocate_def
          ledger_fixed_ip_release_def ledger_fixed_ip_instance_disassociate_def
          write_fixed_ip_def fixed_ip_of_upd_fixed_ip)
  have E: "fst (vlan_deallocate_fixed_ip E' a w') = Inr PyNone \<and>
      fixed_ip_of (ledger_state (snd (vlan_deallocate_fixed_ip E' a w'))) a =
        Some (f\<lparr>fip_instance := None, leased := False\<rparr>)"
    if "db E' = ledger_db" "fixed_ip_of (ledger_state w') a = Some f" "\<not> leased f"
    using that
    by (simp add: vlan_deallocate_fixed_ip_def release_fixed_ip_def run_simps ledger_db_def
          ledger_fixed_ip_get_by_address_def ledger_fixed_ip_deallocate_def
          ledger_fixed_ip_release_def ledger_fixed_ip_instance_disassociate_def
          write_fixed_ip_def fixed_ip_of_upd_fixed_ip)
  from A B C D E show ?thesis by blast
qed

text \<open>Tenant B's leased address \<open>10.0.1.3\<close> keeps instance \<open>i-1\<close> until the release;
  the address \<open>10.0.1.4\<close>, not leased, loses instance \<open>i-2\<close> at once.\<close>

theorem vlan_deallocate_fixed_ip_two_phase_witness:
  "db env0 = ledger_db \<and>
   fixed_ip_of ledger0 ''10.0.1.3'' = Some (fip ''10.0.1.3'' 2 (Some ''i-1'') True True) \<and>
   fst (fixed_ip_get_by_address (db env0) ''10.0.1.3'' ledger0) =
     Inr (fip ''10.0.1.3'' 2 (Some ''i-1'') True True) \<and>
   leased (fip ''10.0.1.3'' 2 (Some ''i-1'') True True) \<and>
   calls (snd (vlan_deallocate_fixed_ip env0 ''10.0.1.3'' (start ledger0 []))) =
     [Db_fixed_ip_get_by_address ''10.0.1.3'', Db_fixed_ip_deallocate ''10.0.1.3''] \<and>
   fixed_ip_of (ledger_state (snd (vlan_deallocate_fixed_ip env0 ''10.0.1.3'' (start ledger0 []))))
       ''10.0.1.3'' = Some (fip ''10.0.1.3'' 2 (Some ''i-1'') True False) \<and>
   fixed_ip_of (ledger_state (snd (release_fixed_ip env0 ''10.0.1.3''
       (snd (vlan_deallocate_fixed_ip env0 ''10.0.1.3'' (start ledger0 []))))))
       ''10.0.1.3'' = Some (fip ''10.0.1.3'' 2 None False False) \<and>
   fixed_ip_of ledger0 ''10.0.1.4'' = Some (fip ''10.0.1.4'' 2 (Some ''i-2'') False True) \<and>
   \<not> leased (fip ''10.0.1.4'' 2 (Some ''i-2'') False True) \<and>
   fst (fixed_ip_release (db env0) ''10.0.1.4'' ledger0) = Inr () \<and>
   calls (snd (vlan_deallocate_fixed_ip env0 ''10.0.1.4'' (start ledger0 []))) =
     [Db_fixed_ip_get_by_address ''10.0.1.4'', Db_fixed_ip_release ''10.0.1.4'',
      Db_fixed_ip_instance_disassociate ''10.0.1.4''] \<and>
   fixed_ip_of (ledger_state (snd (vlan_deallocate_fixed_ip env0 ''10.0.1.4'' (start ledger0 []))))
       ''10.0.1.4'' = Some (fip ''10.0.1.4'' 2 None False True)"
  using vlan_deallocate_fixed_ip_two_phase
    [of env0 "''10.0.1.3''" "start ledger0 []" "fip ''10.0.1.3'' 2 (Some ''i-1'') True True"
        env0 "start ledger0 []" "fip ''10.0.1.3'' 2 (Some ''i-1'') True True"]
    vlan_deallocate_fixed_ip_two_phase
    [of env0 "''10.0.1.4''" "start ledger0 []" "fip ''10.0.1.4'' 2 (Some ''i-2'') False True"
        env0 "start ledger0 []" "fip ''10.0.1.4'' 2 (Some ''i-2'') False True"]
  by (simp add: vlan_deallocate_fixed_ip_def release_fixed_ip_def run_simps ledger_defs
        fixture_defs)

subsection \<open>Exhausting a pool\<close>

text \<open>On the ledger, one allocation from a pool that is not empty hands out the pool's
  first address; one from an empty pool raises and changes nothing in the ledger.\<close>

lemma find_filter_Cons: "filter P xs = y # ys \<Longrightarrow> find P xs = Some y"
  by (induction xs) (auto split: if_splits)

lemma find_filter_Nil: "filter P xs = [] \<Longrightarrow> find P xs = None"
  by (induction xs) (auto split: if_splits)

lemma filter_Cons_member: "filter P xs = y # ys \<Longrightarrow> y \<in> set xs \<and> P y"
proof -
  assume "filter P xs = y # ys"
  then have "y \<in> set (filter P xs)" by simp
  then show ?thesis by simp
qed

lemma find_key_distinct:
  "distinct (map key xs) \<Longrightarrow> x \<in> set xs \<Longrightarrow> find (\<lambda>y. key y = key x) xs = Some x"
  by (induction xs) auto

lemma filter_upd_head:
  assumes "distinct (map key xs)" and "filter P xs = y # ys" and "\<not> P (g y)"
  shows "filter P (map (\<lambda>x. if key x = key y then g x else x) xs) = ys"
  using assms
proof (induction xs)
  case Nil
  then show ?case by simp
next
  case (Cons x xs)
  show ?case
  proof (cases "P x")
    case True
    with Cons.prems have xy: "x = y" and rest: "filter P xs = ys" by auto
    from Cons.prems(1) have "key x \<notin> key ` set xs" by simp
    with xy have "\<forall>z \<in> set xs. key z \<noteq> key y" by (metis image_eqI)
    then have "map (\<lambda>x. if key x = key y then g x else x) xs = xs"
      by (simp add: map_idI)
    with xy rest Cons.prems(3) show ?thesis by simp
  next
    case False
    with Cons.prems have rest: "filter P xs = y # ys" by simp
    then have "y \<in> set xs" using filter_Cons_member by fast
    with Cons.prems(1) have "key x \<noteq> key y" by force
    with False rest Cons show ?thesis by simp
  qed
qed

lemma fixed_ips_hand_out:
  "fixed_ips (hand_out a i L) =
     map (\<lambda>f. if fip_address f = a then f\<lparr>allocated := True, fip_instance := Some i\<rparr> else f)
       (fixed_ips L)"
  by (simp add: hand_out_def upd_fixed_ip_def comp_def if_distrib cong: if_cong)

lemma networks_hand_out: "networks (hand_out a i L) = networks L"
  by (simp add: hand_out_def upd_fixed_ip_def)

lemma addresses_hand_out:
  "map fip_address (fixed_ips (hand_out a i L)) = map fip_address (fixed_ips L)"
  by (simp add: fixed_ips_hand_out comp_def if_distrib cong: if_cong)

lemma fixed_ip_of_hand_out:
  "fixed_ip_of (hand_out a i L) b =
     (if b = a then map_option (\<lambda>f. f\<lparr>allocated := True, fip_instance := Some i\<rparr>) (fixed_ip_of L a)
      else fixed_ip_of L b)"
  using find_key_map [of fip_address "\<lambda>f. f\<lparr>allocated := True, fip_instance := Some i\<rparr>" b a
      "fixed_ips L"]
  by (simp add: fixed_ip_of_def fixed_ips_hand_out)

lemma pool_hand_out:
  assumes "distinct (map fip_address (fixed_ips L))" and "pool L nid = f # fs"
  shows "pool (hand_out (fip_address f) i L) nid = fs"
  using filter_upd_head [of fip_address "fixed_ips L" "in_pool nid" f fs
      "\<lambda>f. f\<lparr>allocated := True, fip_instance := Some i\<rparr>"] assms
  by (simp add: pool_def fixed_ips_hand_out in_pool_def)

lemma fixed_ip_of_pool_head:
  assumes "distinct (map fip_address (fixed_ips L))" and "pool L nid = f # fs"
  shows "fixed_ip_of L (fip_address f) = Some f"
proof -
  from assms(2) have "f \<in> set (fixed_ips L)"
    unfolding pool_def using filter_Cons_member by fast
  with assms(1) show ?thesis
    unfolding fixed_ip_of_def by (rule find_key_distinct)
qed

lemma allocate_fixed_ip_some:
  fixes E :: "(ledger, 'd) env"
  assumes "db E = ledger_db"
    and "find (\<lambda>n. project n = p) (networks (ledger_state w)) = Some net"
    and "distinct (map fip_address (fixed_ips (ledger_state w)))"
    and "pool (ledger_state w) (net_id net) = f # fs"
  shows "allocate_fixed_ip E p i w =
     (Inr (PyStr (fip_address f)),
      w\<lparr>ledger_state := hand_out (fip_address f) i (ledger_state w),
        calls := calls w @ [Db_project_get_network p, Db_fixed_ip_allocate_address (net_id net),
                            Db_fixed_ip_instance_associate (fip_address f) i]\<rparr>)"
proof -
  have found: "find (in_pool (net_id net)) (fixed_ips (ledger_state w)) = Some f"
    using assms(4) unfolding pool_def by (rule find_filter_Cons)
  have known: "fixed_ip_of (ledger_state w) (fip_address f) = Some f"
    using assms(3,4) by (rule fixed_ip_of_pool_head)
  show ?thesis
    using assms(1,2) found known
    by (simp add: allocate_fixed_ip_def run_simps ledger_db_def ledger_project_get_network_def
          ledger_fixed_ip_allocate_address_def ledger_fixed_ip_instance_associate_def
          write_fixed_ip_def fixed_ip_of_upd_fixed_ip hand_out_def)
qed

lemma allocate_fixed_ip_none:
  fixes E :: "(ledger, 'd) env"
  assumes "db E = ledger_db"
    and "find (\<lambda>n. project n = p) (networks (ledger_state w)) = Some net"
    and "pool (ledger_state w) (net_id net) = []"
  shows "allocate_fixed_ip E p i w =
     (Inl AddressSpaceExhausted,
      w\<lparr>calls := calls w @ [Db_project_get_network p,
                            Db_fixed_ip_allocate_address (net_id net)]\<rparr>)"
proof -
  have "find (in_pool (net_id net)) (fixed_ips (ledger_state w)) = None"
    using assms(3) unfolding pool_def by (rule find_filter_Nil)
  with assms(1,2) show ?thesis
    by (simp add: allocate_fixed_ip_def run_simps ledger_db_def ledger_project_get_network_def
          ledger_fixed_ip_allocate_address_def)
qed


lemma repeat_allocate_append:
  "repeat_allocate_fixed_ip E p (xs @ ys) w =
     (case repeat_allocate_fixed_ip E p xs w of
        (rs, w1) \<Rightarrow>
          (case repeat_allocate_fixed_ip E p ys w1 of (rs', w2) \<Rightarrow> (rs @ rs', w2)))"
  by (induction xs arbitrary: w) (auto split: prod.splits)

lemma pool_addresses_distinct:
  "distinct (map fip_address (fixed_ips L)) \<Longrightarrow> distinct (map fip_address (pool L nid))"
  unfolding pool_def by (rule distinct_map_filter)

lemma repeat_allocate_run:
  fixes E :: "(ledger, 'd) env"
  assumes "db E = ledger_db"
  shows "find (\<lambda>n. project n = p) (networks (ledger_state w)) = Some net \<Longrightarrow>
     distinct (map fip_address (fixed_ips (ledger_state w))) \<Longrightarrow>
     length insts \<le> length (pool (ledger_state w) (net_id net)) \<Longrightarrow>
     fst (repeat_allocate_fixed_ip E p insts w) =
       map (\<lambda>f. Inr (PyStr (fip_address f)))
         (take (length insts) (pool (ledger_state w) (net_id net))) \<and>
     networks (ledger_state (snd (repeat_allocate_fixed_ip E p insts w))) =
       networks (ledger_state w) \<and>
     distinct (map fip_address
       (fixed_ips (ledger_state (snd (repeat_allocate_fixed_ip E p insts w))))) \<and>
     pool (ledger_state (snd (repeat_allocate_fixed_ip E p insts w))) (net_id net) =
       drop (length insts) (pool (ledger_state w) (net_id net)) \<and>
     (\<forall>a. a \<notin> fip_address ` set (take (length insts) (pool (ledger_state w) (net_id net))) \<longrightarrow>
        fixed_ip_of (ledger_state (snd (repeat_allocate_fixed_ip E p insts w))) a =
          fixed_ip_of (ledger_state w) a) \<and>
     (\<forall>k < length insts.
        fixed_ip_of (ledger_state (snd (repeat_allocate_fixed_ip E p insts w)))
            (fip_address (pool (ledger_state w) (net_id net) ! k)) =
          Some ((pool (ledger_state w) (net_id net) ! k)
                   \<lparr>allocated := True, fip_instance := Some (insts ! k)\<rparr>))"
proof (induction insts arbitrary: w)
  case Nil
  then show ?case by simp
next
  case (Cons i insts)
  let ?L = "ledger_state w"
  let ?nid = "net_id net"
  from Cons.prems(3) obtain f fs where pl: "pool ?L ?nid = f # fs"
    by (cases "pool ?L ?nid") auto
  let ?a = "fip_address f"
  let ?w1 = "w\<lparr>ledger_state := hand_out ?a i ?L,
        calls := calls w @ [Db_project_get_network p, Db_fixed_ip_allocate_address ?nid,
                            Db_fixed_ip_instance_associate ?a i]\<rparr>"
  have step: "allocate_fixed_ip E p i w = (Inr (PyStr ?a), ?w1)"
    using assms Cons.prems(1,2) pl by (rule allocate_fixed_ip_some)
  have net1: "find (\<lambda>n. project n = p) (networks (ledger_state ?w1)) = Some net"
    using Cons.prems(1) by (simp add: networks_hand_out)
  have dist1: "distinct (map fip_address (fixed_ips (ledger_state ?w1)))"
    using Cons.prems(2) by (simp add: addresses_hand_out)
  have pool1: "pool (ledger_state ?w1) ?nid = fs"
    using pool_hand_out [OF Cons.prems(2) pl] by simp
  have len1: "length insts \<le> length (pool (ledger_state ?w1) ?nid)"
    using Cons.prems(3) pl pool1 by simp
  note IH = Cons.IH [OF net1 dist1 len1, unfolded pool1]
  let ?R = "repeat_allocate_fixed_ip E p insts ?w1"
  have unroll: "repeat_allocate_fixed_ip E p (i # insts) w = (Inr (PyStr ?a) # fst ?R, snd ?R)"
    using step by (simp split: prod.splits)
  have head_known: "fixed_ip_of ?L ?a = Some f"
    using Cons.prems(2) pl by (rule fixed_ip_of_pool_head)
  have "distinct (map fip_address (f # fs))"
    using pool_addresses_distinct [OF Cons.prems(2), of ?nid] pl by simp
  then have fresh: "?a \<notin> fip_address ` set (take (length insts) fs)"
    using set_take_subset [of "length insts" fs] by auto
  have frame1: "fixed_ip_of (ledger_state ?w1) b = fixed_ip_of ?L b" if "b \<noteq> ?a" for b
    using that by (simp add: fixed_ip_of_hand_out)
  have head_after: "fixed_ip_of (ledger_state (snd ?R)) ?a =
      Some (f\<lparr>allocated := True, fip_instance := Some i\<rparr>)"
  proof -
    from IH fresh have "fixed_ip_of (ledger_state (snd ?R)) ?a = fixed_ip_of (ledger_state ?w1) ?a"
      by blast
    also have "\<dots> = Some (f\<lparr>allocated := True, fip_instance := Some i\<rparr>)"
      using head_known by (simp add: fixed_ip_of_hand_out)
    finally show ?thesis .
  qed
  have c1: "fst (repeat_allocate_fixed_ip E p (i # insts) w) =
       map (\<lambda>f. Inr (PyStr (fip_address f))) (take (length (i # insts)) (pool ?L ?nid))"
    using IH unroll pl by simp
  have c2: "networks (ledger_state (snd (repeat_allocate_fixed_ip E p (i # insts) w))) =
       networks ?L"
    using IH unroll by (simp add: networks_hand_out)
  have c3: "distinct (map fip_address
       (fixed_ips (ledger_state (snd (repeat_allocate_fixed_ip E p (i # insts) w)))))"
    using IH unroll by simp
  have c4: "pool (ledger_state (snd (repeat_allocate_fixed_ip E p (i # insts) w))) ?nid =
       drop (length (i # insts)) (pool ?L ?nid)"
    using IH unroll pl by simp
  have c5: "fixed_ip_of (ledger_state (snd (repeat_allocate_fixed_ip E p (i # insts) w))) b =
          fixed_ip_of ?L b"
    if "b \<notin> fip_address ` set (take (length (i # insts)) (pool ?L ?nid))" for b
  proof -
    from that pl have "b \<noteq> ?a" and "b \<notin> fip_address ` set (take (length insts) fs)"
      by auto
    with IH frame1 unroll show ?thesis by simp
  qed
  have c6: "fixed_ip_of (ledger_state (snd (repeat_allocate_fixed_ip E p (i # insts) w)))
            (fip_address (pool ?L ?nid ! k)) =
          Some ((pool ?L ?nid ! k)\<lparr>allocated := True, fip_instance := Some ((i # insts) ! k)\<rparr>)"
    if "k < length (i # insts)" for k
  proof (cases k)
    case 0
    with head_after unroll pl show ?thesis by simp
  next
    case (Suc j)
    with that have "j < length insts" by simp
    with IH have "fixed_ip_of (ledger_state (snd ?R)) (fip_address (fs ! j)) =
          Some ((fs ! j)\<lparr>allocated := True, fip_instance := Some (insts ! j)\<rparr>)"
      by blast
    with Suc unroll pl show ?thesis by simp
  qed
  from c1 c2 c3 c4 c5 c6 show ?case by blast
qed

text \<open>
  C8. On a ledger whose addresses are pairwise distinct, let the pool of the tenant's
  network hold \<open>N\<close> free addresses. \<open>N + 1\<close> calls of \<open>allocate_fixed_ip\<close> in a row, with no
  deallocation in between, return the \<open>N\<close> addresses of the pool, pairwise distinct, and
  the last call raises \<open>AddressSpaceExhausted\<close> and returns no address. After the calls,
  each returned address is recorded with the instance it was requested for.
\<close>

theorem allocate_fixed_ip_exhaustion:
  fixes E :: "(ledger, 'd) env"
  assumes "db E = ledger_db"
    and "find (\<lambda>n. project n = p) (networks (ledger_state w)) = Some net"
    and "distinct (map fip_address (fixed_ips (ledger_state w)))"
    and "length insts = length (pool (ledger_state w) (net_id net))"
  shows "fst (repeat_allocate_fixed_ip E p (insts @ [extra]) w) =
       map (\<lambda>f. Inr (PyStr (fip_address f))) (pool (ledger_state w) (net_id net)) @
       [Inl AddressSpaceExhausted] \<and>
     distinct (take (length insts) (fst (repeat_allocate_fixed_ip E p (insts @ [extra]) w))) \<and>
     (\<forall>k < length insts.
        fst (repeat_allocate_fixed_ip E p (insts @ [extra]) w) ! k =
          Inr (PyStr (fip_address (pool (ledger_state w) (net_id net) ! k))) \<and>
        map_option fip_instance
          (fixed_ip_of (ledger_state (snd (repeat_allocate_fixed_ip E p (insts @ [extra]) w)))
             (fip_address (pool (ledger_state w) (net_id net) ! k))) =
          Some (Some (insts ! k)))"
proof -
  let ?P = "pool (ledger_state w) (net_id net)"
  let ?R = "repeat_allocate_fixed_ip E p insts w"
  let ?ok = "map (\<lambda>f. Inr (PyStr (fip_address f)) :: error + pyval) ?P"
  from assms(4) have le: "length insts \<le> length ?P" by simp
  note run = repeat_allocate_run [OF assms(1) assms(2) assms(3) le]
  from run assms(4) have res: "fst ?R = ?ok" by simp
  from run assms(2) have net': "find (\<lambda>n. project n = p) (networks (ledger_state (snd ?R))) = Some net"
    by simp
  from run assms(4) have empty: "pool (ledger_state (snd ?R)) (net_id net) = []" by simp
  have last: "allocate_fixed_ip E p extra (snd ?R) =
     (Inl AddressSpaceExhausted,
      (snd ?R)\<lparr>calls := calls (snd ?R) @ [Db_project_get_network p,
                            Db_fixed_ip_allocate_address (net_id net)]\<rparr>)"
    using assms(1) net' empty by (rule allocate_fixed_ip_none)
  have all: "repeat_allocate_fixed_ip E p (insts @ [extra]) w =
     (fst ?R @ [Inl AddressSpaceExhausted],
      (snd ?R)\<lparr>calls := calls (snd ?R) @ [Db_project_get_network p,
                            Db_fixed_ip_allocate_address (net_id net)]\<rparr>)"
    using last by (simp add: repeat_allocate_append case_prod_beta)
  have c1: "fst (repeat_allocate_fixed_ip E p (insts @ [extra]) w) =
      ?ok @ [Inl AddressSpaceExhausted]"
    using all res by simp
  have "distinct (map fip_address ?P)"
    using assms(3) by (rule pool_addresses_distinct)
  then have "distinct ?ok"
    by (simp add: distinct_map inj_on_def)
  then have c2: "distinct (take (length insts)
      (fst (repeat_allocate_fixed_ip E p (insts @ [extra]) w)))"
    using c1 assms(4) by simp
  have c3: "fst (repeat_allocate_fixed_ip E p (insts @ [extra]) w) ! k =
          Inr (PyStr (fip_address (?P ! k))) \<and>
        map_option fip_instance
          (fixed_ip_of (ledger_state (snd (repeat_allocate_fixed_ip E p (insts @ [extra]) w)))
             (fip_address (?P ! k))) = Some (Some (insts ! k))"
    if "k < length insts" for k
  proof -
    from that assms(4) have "k < length ?ok" by simp
    then have "(?ok @ [Inl AddressSpaceExhausted]) ! k = ?ok ! k"
      by (simp add: nth_append)
    also have "\<dots> = Inr (PyStr (fip_address (?P ! k)))"
      using that assms(4) by simp
    finally have a: "fst (repeat_allocate_fixed_ip E p (insts @ [extra]) w) ! k =
        Inr (PyStr (fip_address (?P ! k)))"
      using c1 by simp
    from run that have "fixed_ip_of (ledger_state (snd ?R)) (fip_address (?P ! k)) =
        Some ((?P ! k)\<lparr>allocated := True, fip_instance := Some (insts ! k)\<rparr>)"
      by blast
    then have "map_option fip_instance
          (fixed_ip_of (ledger_state (snd (repeat_allocate_fixed_ip E p (insts @ [extra]) w)))
             (fip_address (?P ! k))) = Some (Some (insts ! k))"
      using all by simp
    with a show ?thesis by simp
  qed
  from c1 c2 c3 show ?thesis by blast
qed

text \<open>Tenant A's pool holds two free addresses: two calls succeed, the third fails.\<close>

theorem allocate_fixed_ip_exhaustion_witness:
  "db env0 = ledger_db \<and>
   find (\<lambda>n. project n = ''tenantA'') (networks (ledger_state (start ledger0 []))) = Some net_a \<and>
   distinct (map fip_address (fixed_ips (ledger_state (start ledger0 [])))) \<and>
   length [''i-7'', ''i-8''] = length (pool (ledger_state (start ledger0 [])) (net_id net_a)) \<and>
   fst (repeat_allocate_fixed_ip env0 ''tenantA'' [''i-7'', ''i-8'', ''i-9''] (start ledger0 [])) =
     [Inr (PyStr ''192.168.0.2''), Inr (PyStr ''192.168.0.3''), Inl AddressSpaceExhausted] \<and>
   map_option fip_instance (fixed_ip_of (ledger_state (snd
      (repeat_allocate_fixed_ip env0 ''tenantA'' [''i-7'', ''i-8'', ''i-9''] (start ledger0 []))))
      ''192.168.0.2'') = Some (Some ''i-7'') \<and>
   map_option fip_instance (fixed_ip_of (ledger_state (snd
      (repeat_allocate_fixed_ip env0 ''tenantA'' [''i-7'', ''i-8'', ''i-9''] (start ledger0 []))))
      ''192.168.0.3'') = Some (Some ''i-8'')"
proof -
  let ?P = "pool (ledger_state (start ledger0 [])) (net_id net_a)"
  let ?L' = "ledger_state (snd
      (repeat_allocate_fixed_ip env0 ''tenantA'' [''i-7'', ''i-8'', ''i-9''] (start ledger0 [])))"
  have h1: "db env0 = ledger_db" by (simp add: env0_def ledger_env_def)
  have h2: "find (\<lambda>n. project n = ''tenantA'') (networks (ledger_state (start ledger0 []))) =
      Some net_a"
    by (simp add: start_def ledger0_def net_a_def net_b_def)
  have h3: "distinct (map fip_address (fixed_ips (ledger_state (start ledger0 []))))"
    by (simp add: start_def ledger0_def fip_def)
  have pl: "?P = [fip ''192.168.0.2'' 1 None False False, fip ''192.168.0.3'' 1 None False False]"
    by (simp add: pool_def in_pool_def start_def ledger0_def fip_def net_a_def)
  have h4: "length [''i-7'', ''i-8''] = length ?P"
    by (simp add: pl)
  note inst = allocate_fixed_ip_exhaustion [OF h1 h2 h3 h4, of "''i-9''"]
  note each = inst [THEN conjunct2, THEN conjunct2, rule_format]
  have r: "fst (repeat_allocate_fixed_ip env0 ''tenantA'' [''i-7'', ''i-8'', ''i-9'']
        (start ledger0 [])) =
     [Inr (PyStr ''192.168.0.2''), Inr (PyStr ''192.168.0.3''), Inl AddressSpaceExhausted]"
    using inst [THEN conjunct1]
    by (simp add: pl fip_def del: repeat_allocate_fixed_ip.simps)
  have lt0: "0 < length [''i-7'', ''i-8'']" and lt1: "1 < length [''i-7'', ''i-8'']"
    by simp_all
  have k0: "map_option fip_instance (fixed_ip_of ?L' ''192.168.0.2'') = Some (Some ''i-7'')"
    using each [OF lt0, THEN conjunct2]
    by (simp add: pl fip_def del: repeat_allocate_fixed_ip.simps)
  have k1: "map_option fip_instance (fixed_ip_of ?L' ''192.168.0.3'') = Some (Some ''i-8'')"
    using each [OF lt1, THEN conjunct2]
    by (simp add: pl fip_def del: repeat_allocate_fixed_ip.simps)
  from h1 h2 h3 h4 r k0 k1 show ?thesis by blast
qed

end
